theory Spec2Isabelle
  imports Complex_Main "HOL-Library.AList"
begin

section \<open>Numbers and arrays\<close>

text \<open>
  The engine is JavaScript; every number is an IEEE double. The embedding reads a JS number
  as an exact \<^typ>\<open>real\<close>: \<open>Math.cos\<close>, \<open>Math.sin\<close>, \<open>Math.log\<close> and \<open>Math.exp\<close> are
  \<^const>\<open>cos\<close>, \<^const>\<open>sin\<close>, \<^const>\<open>ln\<close> and \<^const>\<open>exp\<close>, and rounding error, overflow and
  \<open>NaN\<close> are outside the model. There is one exception: the cosine under the floor of the
  three-issue label is the value the platform computes, a parameter of the model (see the
  three-issue engine below). The one infinite value the code produces on purpose, the
  start value \<open>-Infinity\<close> of a running maximum, is a constructor of its own.
  A JS array is a list. An array read \<open>b[i]\<close> is \<open>b ! i\<close>; every theorem that depends on such
  a read carries the hypothesis that keeps the index in range (in JS an out-of-range read
  gives \<open>undefined\<close> and the arithmetic on it gives \<open>NaN\<close>).
  A method \<open>_name\<close> of the source is written \<open>priv_name\<close>.
\<close>

definition degToRad :: "real \<Rightarrow> real" where
  "degToRad deg = deg * pi / 180"

definition radToDeg :: "real \<Rightarrow> real" where
  "radToDeg rad = rad * 180 / pi"

text \<open>\<open>a.reduce((sum, val, i) => sum + val * b[i], 0)\<close>\<close>

definition dot :: "real list \<Rightarrow> real list \<Rightarrow> real" where
  "dot a b = foldl (\<lambda>acc (val, i). acc + val * b ! i) 0 (zip a [0..<length a])"

text \<open>\<open>a.map((val, i) => val - b[i])\<close>\<close>

definition subtractArrays :: "real list \<Rightarrow> real list \<Rightarrow> real list" where
  "subtractArrays a b = map (\<lambda>(val, i). val - b ! i) (zip a [0..<length a])"

definition normalize :: "real list \<Rightarrow> real list" where
  "normalize arr =
     (let total = foldl (+) 0 arr
      in if total \<le> 0 then map (\<lambda>_. 1 / real (length arr)) arr
         else map (\<lambda>v. v / total) arr)"

definition normalize2D :: "real list list \<Rightarrow> real list list" where
  "normalize2D arr2d =
     (let flat = concat arr2d;
          total = foldl (+) 0 flat
      in if total \<le> 0
         then (let val = 1 / real (length flat) in map (\<lambda>row. map (\<lambda>_. val) row) arr2d)
         else map (\<lambda>row. map (\<lambda>v. v / total) row) arr2d)"

section \<open>Configuration constants (four-issue engine)\<close>

definition EMOTION_RANGE_MAX :: real where
  "EMOTION_RANGE_MAX = 7"

definition LIKELIHOOD_MATCH :: real where
  "LIKELIHOOD_MATCH = 1 - 1 / 10 ^ 9"

definition LIKELIHOOD_MISMATCH :: real where
  "LIKELIHOOD_MISMATCH = (1 / 10 ^ 9) / 8"

section \<open>Max-anchored emotion label\<close>

text \<open>
  The running maximum \<open>maxU\<close> starts at \<open>-Infinity\<close> and takes the value of every candidate
  that exceeds it (\<open>if (u > maxU) maxU = u\<close>).
\<close>

datatype maxval = NegInfinity | Finite real

fun max_step :: "maxval \<Rightarrow> real \<Rightarrow> maxval" where
  "max_step NegInfinity u = Finite u"
| "max_step (Finite m) u = (if u > m then Finite u else Finite m)"

text \<open>
  \<open>_utilityToEmotion(utility, maxUtility)\<close>. With \<open>maxUtility = -Infinity\<close> the difference
  \<open>delta\<close> is \<open>+Infinity\<close>, both comparisons fail and \<open>Math.min(7, Infinity)\<close> is 7.
\<close>

fun priv_utilityToEmotion :: "real \<Rightarrow> maxval \<Rightarrow> int" where
  "priv_utilityToEmotion utility NegInfinity = 7"
| "priv_utilityToEmotion utility (Finite maxUtility) =
     (let limit = maxUtility - EMOTION_RANGE_MAX;
          delta = utility - limit;
          eps = 1 / 10 ^ 3
      in if delta < - eps then - 1
         else if \<bar>delta\<bar> \<le> eps then 0
         else min 7 \<lceil>delta\<rceil>)"

section \<open>Grid generation\<close>

text \<open>
  \<open>generateAllOffers(Q)\<close>: four nested counting statements
  \<open>for (let a = 0; a <= Q[0]; a++)\<close>. The counter takes the values \<open>0, 1, ..\<close> up to the
  bound; a missing bound (\<open>undefined\<close>) makes the comparison false and the body never runs.
\<close>

definition counter_values :: "real list \<Rightarrow> nat \<Rightarrow> real list" where
  "counter_values Qv i =
     (if i < length Qv then map real [0..<nat (\<lfloor>Qv ! i\<rfloor> + 1)] else [])"

definition generateAllOffers :: "real list \<Rightarrow> real list list" where
  "generateAllOffers Qv =
     concat (map (\<lambda>a. concat (map (\<lambda>b. concat (map (\<lambda>c. map (\<lambda>d. [a, b, c, d])
       (counter_values Qv 3)) (counter_values Qv 2))) (counter_values Qv 1))) (counter_values Qv 0))"

text \<open>
  Each grid loop has the shape \<open>for (let v = start; v <= bound; v += step) arr.push(f(v))\<close>.
  With \<open>step <= 0\<close> and \<open>start <= bound\<close> the loop never ends, so the result is optional.
  The model adds \<open>step\<close> exactly, where the code adds doubles. The two agree when
  \<open>start\<close>, the end of the range and \<open>step\<close> are integers of magnitude at most \<open>2^40\<close>:
  every value of \<open>v\<close> is then an integer below \<open>2^53\<close>, which doubles add and compare
  without rounding. The default grids are of this kind, and the statements about the
  endpoints of a grid are made for such inputs only.
\<close>

partial_function (option) push_loop ::
  "(real \<Rightarrow> real) \<Rightarrow> real \<Rightarrow> real \<Rightarrow> real \<Rightarrow> real list \<Rightarrow> real list option" where
  "push_loop f v bound step arr =
     (if v \<le> bound then push_loop f (v + step) bound step (arr @ [f v]) else Some arr)"

text \<open>The number of times the body of such a loop runs when \<open>step\<close> is positive.\<close>

definition loop_count :: "real \<Rightarrow> real \<Rightarrow> real \<Rightarrow> nat" where
  "loop_count v bound step = (if v \<le> bound then nat \<lfloor>(bound - v) / step\<rfloor> + 1 else 0)"

text \<open>\<open>Math.round(x)\<close> is the integer nearest to \<open>x\<close>, a tie going up.\<close>

definition js_round :: "real \<Rightarrow> real" where
  "js_round x = real_of_int \<lfloor>x + 1 / 2\<rfloor>"

definition product4 :: "real list \<Rightarrow> real list list" where
  "product4 vals =
     concat (map (\<lambda>a. concat (map (\<lambda>b. concat (map (\<lambda>c. map (\<lambda>d. [a, b, c, d])
       vals) vals)) vals)) vals)"

definition generateWGrid :: "real \<Rightarrow> real \<Rightarrow> real \<Rightarrow> real list list option" where
  "generateWGrid mn mx step =
     map_option product4
       (push_loop (\<lambda>v. js_round (v * 100) / 100) mn (mx + 1 / 10 ^ 3) step [])"

definition generateThetaGrid :: "real \<Rightarrow> real \<Rightarrow> real \<Rightarrow> real list option" where
  "generateThetaGrid mn mx step = push_loop degToRad mn (mx + 1 / 10 ^ 3) step []"

section \<open>ParameterSpace: the joint distribution over the grid\<close>

record ParameterSpace =
  thetaValues :: "real list"
  wGrid :: "real list list"
  Nt :: nat
  Nw :: nat
  distribution :: "real list list"

definition new_ParameterSpace :: "real list \<Rightarrow> real list list \<Rightarrow> ParameterSpace" where
  "new_ParameterSpace thetas ws =
     (let nt = length thetas; nw = length ws; uniformProb = 1 / real (nt * nw)
      in \<lparr> thetaValues = thetas, wGrid = ws, Nt = nt, Nw = nw,
           distribution = replicate nt (replicate nw uniformProb) \<rparr>)"

definition getMarginalTheta :: "ParameterSpace \<Rightarrow> real list" where
  "getMarginalTheta ps = map (\<lambda>row. foldl (+) 0 row) (distribution ps)"

definition getPosteriorMean :: "ParameterSpace \<Rightarrow> real \<times> real list" where
  "getPosteriorMean ps =
     (let normDist = normalize2D (distribution ps);
          thetaMarginal = map (\<lambda>row. foldl (+) 0 row) normDist;
          thetaMean = foldl (\<lambda>acc (t, i). acc + t * thetaMarginal ! i) 0
                        (zip (thetaValues ps) [0..<length (thetaValues ps)]);
          wMarginal = map (\<lambda>j. foldl (\<lambda>acc i. acc + normDist ! i ! j) 0 [0..<Nt ps]) [0..<Nw ps];
          wMean = map (\<lambda>k. foldl (\<lambda>acc j. acc + wMarginal ! j * wGrid ps ! j ! k) 0 [0..<Nw ps])
                    [0..<4]
      in (thetaMean, wMean))"

section \<open>BayesianInferenceEngine (four issues, linear domain)\<close>

record BayesianInferenceEngine =
  paramSpace :: ParameterSpace
  Q :: "real list"
  wSelf :: "real list"
  candX :: "real list list"
  UMAX :: "maxval list list"

text \<open>The running maximum of the utility over the candidate offers.\<close>

definition max_over_candidates ::
  "real list \<Rightarrow> real list \<Rightarrow> real list list \<Rightarrow> real \<Rightarrow> real \<Rightarrow> real list \<Rightarrow> maxval" where
  "max_over_candidates Qv ws cands cosT sinT wOther =
     foldl (\<lambda>maxU x.
              let xOther = subtractArrays Qv x;
                  u = cosT * dot wOther xOther + sinT * dot ws x
              in max_step maxU u)
       NegInfinity cands"

definition priv_precomputeUMAX :: "BayesianInferenceEngine \<Rightarrow> BayesianInferenceEngine" where
  "priv_precomputeUMAX e =
     (let ps = paramSpace e
      in e \<lparr> UMAX :=
           map (\<lambda>ti.
                  let theta = thetaValues ps ! ti;
                      cosT = cos theta;
                      sinT = sin theta
                  in map (\<lambda>wi.
                            let wOther = wGrid ps ! wi
                            in max_over_candidates (Q e) (wSelf e) (candX e) cosT sinT wOther)
                       [0..<Nw ps])
             [0..<Nt ps] \<rparr>)"

definition new_BayesianInferenceEngine ::
  "ParameterSpace \<Rightarrow> real list \<Rightarrow> real list \<Rightarrow> real list list \<Rightarrow> BayesianInferenceEngine" where
  "new_BayesianInferenceEngine ps Qv ws cands =
     priv_precomputeUMAX \<lparr> paramSpace = ps, Q = Qv, wSelf = ws, candX = cands, UMAX = [] \<rparr>"

definition predictEmotion :: "BayesianInferenceEngine \<Rightarrow> nat \<Rightarrow> nat \<Rightarrow> real list \<Rightarrow> int" where
  "predictEmotion e thetaIndex wIndex x =
     (let theta = thetaValues (paramSpace e) ! thetaIndex;
          wOther = wGrid (paramSpace e) ! wIndex;
          xOther = subtractArrays (Q e) x;
          utility = cos theta * dot wOther xOther + sin theta * dot (wSelf e) x
      in priv_utilityToEmotion utility (UMAX e ! thetaIndex ! wIndex))"

definition computeTrueEmotion ::
  "BayesianInferenceEngine \<Rightarrow> real list \<Rightarrow> real \<Rightarrow> real list \<Rightarrow> int" where
  "computeTrueEmotion e x trueTheta trueW =
     (let xOther = subtractArrays (Q e) x;
          utility = cos trueTheta * dot trueW xOther + sin trueTheta * dot (wSelf e) x;
          cosT = cos trueTheta;
          sinT = sin trueTheta;
          maxU = max_over_candidates (Q e) (wSelf e) (candX e) cosT sinT trueW
      in priv_utilityToEmotion utility maxU)"

text \<open>
  \<open>update(observedEmotion, xProposal)\<close>. The nested iteration fills the local array
  \<open>posterior\<close> with prior times likelihood (\<open>posterior_table\<close>); the normalised array
  replaces the distribution of the parameter space, which the engine holds by reference, so
  the updated engine carries the updated space.
\<close>

definition posterior_table :: "BayesianInferenceEngine \<Rightarrow> int \<Rightarrow> real list \<Rightarrow> real list list" where
  "posterior_table e observedEmotion xProposal =
     (let ps = paramSpace e;
          prior = distribution ps
      in map (\<lambda>ti.
                map (\<lambda>wi.
                       let predicted = predictEmotion e ti wi xProposal;
                           likelihood = (if predicted = observedEmotion
                                         then LIKELIHOOD_MATCH else LIKELIHOOD_MISMATCH)
                       in prior ! ti ! wi * likelihood)
                  [0..<Nw ps])
           [0..<Nt ps])"

definition update ::
  "BayesianInferenceEngine \<Rightarrow> int \<Rightarrow> real list \<Rightarrow> BayesianInferenceEngine" where
  "update e observedEmotion xProposal =
     (let posterior = posterior_table e observedEmotion xProposal
      in e \<lparr> paramSpace := (paramSpace e) \<lparr> distribution := normalize2D posterior \<rparr> \<rparr>)"

text \<open>
  A probability table over the grid: \<open>nt\<close> rows of \<open>nw\<close> non-negative entries that sum to 1.
\<close>

definition is_distribution :: "nat \<Rightarrow> nat \<Rightarrow> real list list \<Rightarrow> bool" where
  "is_distribution nt nw d \<longleftrightarrow>
     length d = nt \<and> (\<forall>row\<in>set d. length row = nw \<and> (\<forall>p\<in>set row. 0 \<le> p))
     \<and> sum_list (concat d) = 1"

section \<open>NegotiationGame (four issues)\<close>

text \<open>
  \<open>reset()\<close> draws the hidden pattern with \<open>Math.random()\<close>; the drawn pattern is an
  argument here (its angle in degrees and its weights; the display name is left out).
  The game and its engine share one parameter space object, so the game's \<open>paramSpace\<close> is
  the \<open>paramSpace\<close> of its engine. Of the summary that \<open>applyOffer\<close> returns, the
  per-component marginals (a read-only view of the distribution) are left out.
\<close>

definition CONFIG_Q :: "real list" where
  "CONFIG_Q = [7, 5, 5, 5]"

definition CONFIG_W_SELF :: "real list" where
  "CONFIG_W_SELF = [2, - 1, 0, 1]"

record HistoryEntry =
  h_round :: nat
  h_offer :: "real list"
  h_emotion :: int
  h_thetaEstimate :: real
  h_wEstimate :: "real list"

record NegotiationGame =
  g_Q :: "real list"
  g_wSelf :: "real list"
  g_candX :: "real list list"
  g_wGrid :: "real list list"
  g_thetaGrid :: "real list"
  trueTheta :: real
  trueThetaDeg :: real
  trueW :: "real list"
  engine :: BayesianInferenceEngine
  round_no :: nat
  history :: "HistoryEntry list"

record OfferResult =
  r_emotion :: int
  r_round :: nat
  r_thetaMarginal :: "real list"
  r_thetaMean :: real
  r_wMean :: "real list"
  r_thetaGrid :: "real list"

definition reset :: "NegotiationGame \<Rightarrow> real \<times> real list \<Rightarrow> NegotiationGame" where
  "reset g pattern =
     (let ps = new_ParameterSpace (g_thetaGrid g) (g_wGrid g)
      in g \<lparr> trueTheta := degToRad (fst pattern),
             trueThetaDeg := fst pattern,
             trueW := snd pattern,
             engine := new_BayesianInferenceEngine ps (g_Q g) (g_wSelf g) (g_candX g),
             round_no := 0,
             history := [] \<rparr>)"

definition new_NegotiationGame ::
  "real list option \<Rightarrow> real \<times> real list \<Rightarrow> NegotiationGame option" where
  "new_NegotiationGame customWSelf pattern =
     (case generateWGrid (- 4) 4 1 of
        None \<Rightarrow> None
      | Some wg \<Rightarrow>
          (case generateThetaGrid (- 90) 90 5 of
             None \<Rightarrow> None
           | Some tg \<Rightarrow>
               Some (reset
                 \<lparr> g_Q = CONFIG_Q,
                   g_wSelf = (case customWSelf of None \<Rightarrow> CONFIG_W_SELF | Some ws \<Rightarrow> ws),
                   g_candX = generateAllOffers CONFIG_Q,
                   g_wGrid = wg,
                   g_thetaGrid = tg,
                   trueTheta = 0, trueThetaDeg = 0, trueW = [],
                   engine = new_BayesianInferenceEngine (new_ParameterSpace [] []) [] [] [],
                   round_no = 0,
                   history = [] \<rparr> pattern)))"

definition applyOffer :: "NegotiationGame \<Rightarrow> real list \<Rightarrow> OfferResult \<times> NegotiationGame" where
  "applyOffer g x =
     (let rnd = round_no g + 1;
          emotion = computeTrueEmotion (engine g) x (trueTheta g) (trueW g);
          eng = update (engine g) emotion x;
          (thetaMean, wMean) = getPosteriorMean (paramSpace eng);
          thetaMarginal = normalize (getMarginalTheta (paramSpace eng));
          entry = \<lparr> h_round = rnd, h_offer = x, h_emotion = emotion,
                    h_thetaEstimate = radToDeg thetaMean, h_wEstimate = wMean \<rparr>
      in (\<lparr> r_emotion = emotion, r_round = rnd, r_thetaMarginal = thetaMarginal,
            r_thetaMean = radToDeg thetaMean, r_wMean = wMean,
            r_thetaGrid = map radToDeg (g_thetaGrid g) \<rparr>,
          g \<lparr> engine := eng, round_no := rnd, history := history g @ [entry] \<rparr>))"

section \<open>EmotionModel and the fast predictor (four-issue variant with both code paths)\<close>

text \<open>
  This variant of the engine file keeps a separate \<open>EmotionModel\<close> class, which generates the
  observed label, next to the engine's \<open>_predictEmotionFast\<close>, which predicts it from the
  cached maxima. Its engine has the fields of the engine above (with \<open>q\<close> for \<open>Q\<close>) and the
  same \<open>_precomputeUMAX\<close>.
\<close>

definition NEUTRAL_EPSILON :: real where
  "NEUTRAL_EPSILON = 0"

record EmotionModel =
  em_q :: "real list"
  em_wSelf :: "real list"
  em_candX :: "real list list"

definition utility :: "EmotionModel \<Rightarrow> real list \<Rightarrow> real list \<Rightarrow> real \<Rightarrow> real" where
  "utility em xSelf wOther theta =
     (let xOther = subtractArrays (em_q em) xSelf;
          c = cos theta;
          s = sin theta
      in c * dot wOther xOther + s * dot (em_wSelf em) xSelf)"

text \<open>
  With no candidate the maximum stays \<open>-Infinity\<close>, so does \<open>limit\<close>; every comparison of the
  ladder fails and the last branch returns 7.
\<close>

definition utilityToEmotion :: "EmotionModel \<Rightarrow> real list \<Rightarrow> real list \<Rightarrow> real \<Rightarrow> int" where
  "utilityToEmotion em xSelf wOther theta =
     (let uOther = utility em xSelf wOther theta;
          maxU = foldl (\<lambda>maxU x. max_step maxU (utility em x wOther theta))
                   NegInfinity (em_candX em)
      in case maxU of
           NegInfinity \<Rightarrow> 7
         | Finite m \<Rightarrow>
             (let limit = m - EMOTION_RANGE_MAX;
                  epsilon = NEUTRAL_EPSILON
              in if uOther < limit - epsilon then - 1
                 else if \<bar>uOther - limit\<bar> \<le> epsilon then 0
                 else if uOther \<le> limit + 1 then 1
                 else if uOther \<le> limit + 2 then 2
                 else if uOther \<le> limit + 3 then 3
                 else if uOther \<le> limit + 4 then 4
                 else if uOther \<le> limit + 5 then 5
                 else if uOther \<le> limit + 6 then 6
                 else 7))"

definition sampleEmotion :: "EmotionModel \<Rightarrow> real list \<Rightarrow> real \<Rightarrow> real list \<Rightarrow> int" where
  "sampleEmotion em x tTheta tW = utilityToEmotion em x tW tTheta"

definition priv_predictEmotionFast ::
  "BayesianInferenceEngine \<Rightarrow> nat \<Rightarrow> nat \<Rightarrow> real list \<Rightarrow> int" where
  "priv_predictEmotionFast e ti wi x =
     (let theta = thetaValues (paramSpace e) ! ti;
          wOther = wGrid (paramSpace e) ! wi;
          xOther = subtractArrays (Q e) x;
          c = cos theta;
          s = sin theta;
          u = c * dot wOther xOther + s * dot (wSelf e) x
      in case UMAX e ! ti ! wi of
           NegInfinity \<Rightarrow> 7
         | Finite maxU \<Rightarrow>
             (let limit = maxU - EMOTION_RANGE_MAX;
                  delta = u - limit;
                  eps = 1 / 10 ^ 3
              in if delta < - eps then - 1
                 else if \<bar>delta\<bar> \<le> eps then 0
                 else min 7 \<lceil>delta\<rceil>))"

section \<open>Three-issue engine (fixed-scale emotion, log domain)\<close>

text \<open>
  The three-issue file reads the global object \<open>CONFIG\<close> at every call, and \<open>setWSelf\<close>
  replaces its \<open>W_SELF\<close>; the configuration is therefore an explicit argument. Names that
  the four-issue file also uses carry the suffix 3. Where the source leaves the finite
  numbers (an empty \<open>W_SELF\<close> gives the scale \<open>-Infinity\<close>, a zero scale divides by zero) the
  model gives no value: the result is \<open>None\<close>.
\<close>

record Config3 =
  cfg_Q :: "real list"
  cfg_W_SELF :: "real list"
  cfg_W_GRID_MIN :: real
  cfg_W_GRID_MAX :: real
  cfg_W_GRID_STEP :: real
  cfg_THETA_GRID_MIN :: real
  cfg_THETA_GRID_MAX :: real
  cfg_THETA_GRID_STEP :: real
  cfg_EMOTION_RANGE_MAX :: int
  cfg_LIKELIHOOD_MATCH :: real
  cfg_LIKELIHOOD_MISMATCH :: real

definition CONFIG3 :: Config3 where
  "CONFIG3 =
     \<lparr> cfg_Q = [7, 5, 6],
       cfg_W_SELF = [4, 0, - 4],
       cfg_W_GRID_MIN = - 4,
       cfg_W_GRID_MAX = 4,
       cfg_W_GRID_STEP = 1,
       cfg_THETA_GRID_MIN = - 90,
       cfg_THETA_GRID_MAX = 90,
       cfg_THETA_GRID_STEP = 5,
       cfg_EMOTION_RANGE_MAX = 7,
       cfg_LIKELIHOOD_MATCH = 1 - 1 / 10 ^ 9,
       cfg_LIKELIHOOD_MISMATCH = (1 / 10 ^ 9) / 8 \<rparr>"

definition setWSelf :: "Config3 \<Rightarrow> real list \<Rightarrow> Config3" where
  "setWSelf cfg newWSelf = cfg \<lparr> cfg_W_SELF := newWSelf \<rparr>"

definition utility3 :: "real list \<Rightarrow> real list \<Rightarrow> real" where
  "utility3 offer w = dot offer w"

definition range_arr :: "real \<Rightarrow> real \<Rightarrow> real \<Rightarrow> real list option" where
  "range_arr start end_v step =
     push_loop (\<lambda>v. js_round (v * 1000) / 1000) start (end_v + 1 / 10 ^ 9) step []"

definition sum_arr :: "real list \<Rightarrow> real" where
  "sum_arr arr = foldl (+) 0 arr"

text \<open>\<open>Math.max(...arr)\<close>, which is \<open>-Infinity\<close> on the empty array.\<close>

definition js_max :: "real list \<Rightarrow> maxval" where
  "js_max arr = foldl max_step NegInfinity arr"

definition logsumexp :: "real list \<Rightarrow> maxval" where
  "logsumexp logArr =
     (case js_max logArr of
        NegInfinity \<Rightarrow> NegInfinity
      | Finite maxLog \<Rightarrow> Finite (maxLog + ln (sum_arr (map (\<lambda>x. exp (x - maxLog)) logArr))))"

text \<open>
  \<open>logPosterior\<close> is a JS object keyed by the string \<open>theta|w1,w2,w3\<close>. The string of a pair
  determines the pair, so the key is the pair itself; the object is an association list in
  insertion order, as \<open>Object.values\<close> and \<open>for .. in\<close> enumerate it.
\<close>

type_synonym key3 = "real \<times> real list"

record ParameterSpace3 =
  thetaValues3 :: "real list"
  wComponentValues :: "real list"
  wCombinations :: "real list list"
  logPosterior :: "(key3 \<times> real) list"

definition priv_key :: "real \<Rightarrow> real list \<Rightarrow> key3" where
  "priv_key theta w = (theta, w)"

definition priv_generateWCombinations :: "real list \<Rightarrow> real list list" where
  "priv_generateWCombinations vals =
     concat (map (\<lambda>w1. concat (map (\<lambda>w2. map (\<lambda>w3. [w1, w2, w3]) vals) vals)) vals)"

text \<open>The pairs in the order of the iteration \<open>for (theta of thetaValues) for (w of wCombinations)\<close>.\<close>

definition grid_keys :: "ParameterSpace3 \<Rightarrow> key3 list" where
  "grid_keys ps =
     concat (map (\<lambda>theta. map (\<lambda>w. priv_key theta w) (wCombinations ps)) (thetaValues3 ps))"

definition priv_initUniformPrior :: "ParameterSpace3 \<Rightarrow> ParameterSpace3" where
  "priv_initUniformPrior ps =
     (let totalParams = length (thetaValues3 ps) * length (wCombinations ps);
          logUniform = - ln (real totalParams)
      in ps \<lparr> logPosterior :=
           foldl (\<lambda>lp k. AList.update k logUniform lp) (logPosterior ps) (grid_keys ps) \<rparr>)"

definition new_ParameterSpace3 :: "Config3 \<Rightarrow> ParameterSpace3 option" where
  "new_ParameterSpace3 cfg =
     (case range_arr (cfg_THETA_GRID_MIN cfg) (cfg_THETA_GRID_MAX cfg) (cfg_THETA_GRID_STEP cfg) of
        None \<Rightarrow> None
      | Some thetas \<Rightarrow>
          (case range_arr (cfg_W_GRID_MIN cfg) (cfg_W_GRID_MAX cfg) (cfg_W_GRID_STEP cfg) of
             None \<Rightarrow> None
           | Some vals \<Rightarrow>
               Some (priv_initUniformPrior
                 \<lparr> thetaValues3 = thetas, wComponentValues = vals,
                   wCombinations = priv_generateWCombinations vals,
                   logPosterior = [] \<rparr>)))"

definition priv_normalizeLogPosterior :: "ParameterSpace3 \<Rightarrow> ParameterSpace3" where
  "priv_normalizeLogPosterior ps =
     (let logValues = map snd (logPosterior ps)
      in case logsumexp logValues of
           NegInfinity \<Rightarrow> ps
         | Finite logZ \<Rightarrow> ps \<lparr> logPosterior := map (\<lambda>(k, v). (k, v - logZ)) (logPosterior ps) \<rparr>)"

text \<open>
  \<open>logsumexp\<close> is \<open>-Infinity\<close> only for an object with no entry, which the normalisation
  then leaves as it is. \<open>logPosterior[key] += l\<close> changes the entry of a key in place; every
  grid key has an entry once the prior is initialised.
\<close>

definition updateWithLogLikelihood ::
  "ParameterSpace3 \<Rightarrow> (real \<Rightarrow> real list \<Rightarrow> real option) \<Rightarrow> ParameterSpace3 option" where
  "updateWithLogLikelihood ps logLikelihoodFunc =
     map_option (\<lambda>lp. priv_normalizeLogPosterior (ps \<lparr> logPosterior := lp \<rparr>))
       (foldl (\<lambda>acc (theta, w).
                 case acc of
                   None \<Rightarrow> None
                 | Some lp \<Rightarrow>
                     (case logLikelihoodFunc theta w of
                        None \<Rightarrow> None
                      | Some l \<Rightarrow> Some (AList.map_entry (priv_key theta w) (\<lambda>v. v + l) lp)))
          (Some (logPosterior ps)) (grid_keys ps))"

definition priv_computeScale :: "Config3 \<Rightarrow> real option" where
  "priv_computeScale cfg =
     (let wAbsMax = max (cfg_W_GRID_MAX cfg) \<bar>cfg_W_GRID_MIN cfg\<bar>
      in case js_max (map abs (cfg_W_SELF cfg)) of
           NegInfinity \<Rightarrow> None
         | Finite selfAbsMax \<Rightarrow>
             (let qSum = sum_arr (cfg_Q cfg);
                  maxUtil = (wAbsMax + selfAbsMax) * qSum
              in Some (maxUtil / real_of_int (cfg_EMOTION_RANGE_MAX cfg))))"

text \<open>
  \<open>computeTrueEmotion\<close> takes the floor of the combined utility, so the last bit of
  \<open>Math.cos(degToRad(theta))\<close> decides the label wherever the quotient is an integer: the
  platform returns \<open>6.123233995736766e-17\<close> at 90 degrees, not 0. The value the platform
  computes for an angle in degrees is therefore a parameter \<open>cosDeg\<close> of the three-issue
  model, and nothing is assumed about it; \<open>double_cosDeg\<close> below is the instance used in
  the examples.
\<close>

definition computeTrueEmotion3 ::
  "(real \<Rightarrow> real) \<Rightarrow> Config3 \<Rightarrow> real list \<Rightarrow> real \<Rightarrow> real list \<Rightarrow> int option" where
  "computeTrueEmotion3 cosDeg cfg offer theta wOther =
     (let uSelf = utility3 offer (cfg_W_SELF cfg);
          xOther = subtractArrays (cfg_Q cfg) offer;
          uOther = utility3 xOther wOther;
          cosTheta = cosDeg theta;
          combined = uSelf + cosTheta * uOther
      in case priv_computeScale cfg of
           None \<Rightarrow> None
         | Some scale \<Rightarrow>
             if scale = 0 then None
             else (let rawEmotion = \<lfloor>combined / scale\<rfloor>
                   in Some (max (- 1) (min (cfg_EMOTION_RANGE_MAX cfg) rawEmotion))))"

record BayesianInferenceEngine3 =
  paramSpace3 :: ParameterSpace3

definition update3 ::
  "(real \<Rightarrow> real) \<Rightarrow> Config3 \<Rightarrow> BayesianInferenceEngine3 \<Rightarrow> real list \<Rightarrow> int \<Rightarrow> BayesianInferenceEngine3 option" where
  "update3 cosDeg cfg e offer observedEmotion =
     (let logLikelihoodFunc = (\<lambda>theta w.
            case computeTrueEmotion3 cosDeg cfg offer theta w of
              None \<Rightarrow> None
            | Some predictedEmotion \<Rightarrow>
                if predictedEmotion = observedEmotion
                then Some (ln (cfg_LIKELIHOOD_MATCH cfg))
                else Some (ln (cfg_LIKELIHOOD_MISMATCH cfg)))
      in map_option (\<lambda>ps. e \<lparr> paramSpace3 := ps \<rparr>)
           (updateWithLogLikelihood (paramSpace3 e) logLikelihoodFunc))"

record NegotiationGame3 =
  engine3 :: BayesianInferenceEngine3
  round3 :: nat
  history3 :: "(real list \<times> int) list"
  trueTheta3 :: real
  trueW3 :: "real list"

text \<open>The estimates that \<open>applyOffer\<close> returns next to the label only read the posterior.\<close>

definition applyOffer3 ::
  "(real \<Rightarrow> real) \<Rightarrow> Config3 \<Rightarrow> NegotiationGame3 \<Rightarrow> real list \<Rightarrow> (int \<times> NegotiationGame3) option" where
  "applyOffer3 cosDeg cfg g offer =
     (case computeTrueEmotion3 cosDeg cfg offer (trueTheta3 g) (trueW3 g) of
        None \<Rightarrow> None
      | Some emotion \<Rightarrow>
          (case update3 cosDeg cfg (engine3 g) offer emotion of
             None \<Rightarrow> None
           | Some eng \<Rightarrow>
               Some (emotion,
                     g \<lparr> engine3 := eng, round3 := round3 g + 1,
                         history3 := history3 g @ [(offer, emotion)] \<rparr>)))"

text \<open>
  Two names for the proofs about the update. \<open>add_all h lp ks\<close> is the loop
  \<open>logPosterior[key] += h(key)\<close> over the keys \<open>ks\<close>; \<open>log_likelihood3\<close> is the value of the
  closure \<open>logLikelihoodFunc\<close> of \<open>update\<close> at a key.
\<close>

definition add_all :: "(key3 \<Rightarrow> real) \<Rightarrow> (key3 \<times> real) list \<Rightarrow> key3 list \<Rightarrow> (key3 \<times> real) list" where
  "add_all h lp ks = foldl (\<lambda>lp k. AList.map_entry k (\<lambda>v. v + h k) lp) lp ks"

definition log_likelihood3 :: "(real \<Rightarrow> real) \<Rightarrow> Config3 \<Rightarrow> real list \<Rightarrow> int \<Rightarrow> key3 \<Rightarrow> real" where
  "log_likelihood3 cosDeg cfg offer obs k =
     (if computeTrueEmotion3 cosDeg cfg offer (fst k) (snd k) = Some obs
      then ln (cfg_LIKELIHOOD_MATCH cfg) else ln (cfg_LIKELIHOOD_MISMATCH cfg))"

section \<open>Reference formulas of the specification\<close>

text \<open>
  The utility as the specification writes it, with the dot products as sums over the
  issues: \<open>cos(theta) * (wOther . (Q - offer)) + sin(theta) * (wSelf . offer)\<close>.
\<close>

definition spec_utility :: "real list \<Rightarrow> real list \<Rightarrow> real list \<Rightarrow> real list \<Rightarrow> real \<Rightarrow> real" where
  "spec_utility Qv ws offer wOther theta =
     cos theta * (\<Sum>i<length Qv. wOther ! i * (Qv ! i - offer ! i))
     + sin theta * (\<Sum>i<length Qv. ws ! i * offer ! i)"

text \<open>
  The closed-form maximum of the specification: each coordinate sits at \<open>0\<close> or at \<open>Q_i\<close>,
  whichever of \<open>cos(theta) * w_i * Q_i\<close> and \<open>sin(theta) * wSelf_i * Q_i\<close> is larger.
\<close>

definition vertex_max :: "real list \<Rightarrow> real list \<Rightarrow> real list \<Rightarrow> real \<Rightarrow> real" where
  "vertex_max Qv ws wOther theta =
     (\<Sum>i<length Qv. max (cos theta * wOther ! i * Qv ! i) (sin theta * ws ! i * Qv ! i))"

text \<open>
  The fixed-scale scheme as the specification writes it: the combined utility
  \<open>(wSelf . offer) + cos(theta) * (wOther . (Q - offer))\<close> with the angle in degrees, and the
  scale \<open>(largest absolute w-grid value + largest absolute wSelf component) * sum(Q) /
  EmotionMax\<close>.
\<close>

definition spec_combined :: "real list \<Rightarrow> real list \<Rightarrow> real list \<Rightarrow> real list \<Rightarrow> real \<Rightarrow> real" where
  "spec_combined Qv ws offer wOther thetaDeg =
     (\<Sum>i<length Qv. ws ! i * offer ! i)
     + cos (degToRad thetaDeg) * (\<Sum>i<length Qv. wOther ! i * (Qv ! i - offer ! i))"

definition spec_scale :: "real list \<Rightarrow> real list \<Rightarrow> real list \<Rightarrow> int \<Rightarrow> real" where
  "spec_scale wValues ws Qv emax =
     (Max (abs ` set wValues) + Max (abs ` set ws)) * sum_list Qv / real_of_int emax"

section \<open>Concrete instances\<close>

text \<open>
  A small engine for the examples: one angle (\<open>0\<close>), one weight vector, the default
  quantities and proposer weights, and two candidate offers.
\<close>

definition demo_engine :: BayesianInferenceEngine where
  "demo_engine =
     new_BayesianInferenceEngine (new_ParameterSpace [0] [ [2, 2, - 2, 2] ])
       [7, 5, 5, 5] [2, - 1, 0, 1] [ [0, 0, 0, 0], [7, 0, 0, 0] ]"

text \<open>
  A small three-issue engine: one angle, one weight vector, and the log posterior of its
  single hypothesis (\<open>ln 1 = 0\<close>).
\<close>

definition demo_engine3 :: BayesianInferenceEngine3 where
  "demo_engine3 =
     \<lparr> paramSpace3 =
         \<lparr> thetaValues3 = [0], wComponentValues = [1], wCombinations = [ [1, 1, 1] ],
           logPosterior = [((0, [1, 1, 1]), 0)] \<rparr> \<rparr>"

text \<open>
  An engine with two hypotheses that predict different labels: one angle (\<open>0\<close>), the weight
  vectors \<open>[2, 2, -2, 2]\<close> and \<open>[1, 1, 1, 1]\<close>, three candidate offers, and the uniform
  prior \<open>[ [1/2, 1/2] ]\<close> of the constructor. For the offer \<open>[7, 0, 0, 0]\<close> the first
  hypothesis predicts the label \<open>-1\<close> and the second the label \<open>0\<close>.
\<close>

definition demo_engine2 :: BayesianInferenceEngine where
  "demo_engine2 =
     new_BayesianInferenceEngine (new_ParameterSpace [0] [ [2, 2, - 2, 2], [1, 1, 1, 1] ])
       [7, 5, 5, 5] [2, - 1, 0, 1] [ [0, 0, 0, 0], [7, 0, 0, 0], [2, 0, 0, 0] ]"

text \<open>
  The platform cosine of the examples. At 90 degrees it is the value that
  \<open>Math.cos(90 * Math.PI / 180)\<close> returns, to its sixteen printed digits
  \<open>6.123233995736766e-17\<close>, and at 0 degrees it is \<open>Math.cos(0) = 1\<close>. The examples use it at these two angles only; at the others the
  exact cosine stands in.
\<close>

definition double_cosDeg :: "real \<Rightarrow> real" where
  "double_cosDeg theta =
     (if theta = 90 then 6123233995736766 / 10 ^ 32
      else if theta = 0 then 1 else cos (degToRad theta))"

text \<open>
  A three-issue engine with two hypotheses of equal prior weight \<open>1/2\<close> that predict
  different labels under the default configuration: for the offer \<open>[7, 0, 0]\<close> the
  weights \<open>[1, 1, 1]\<close> give the label \<open>1\<close> and the weights \<open>[-4, -4, -4]\<close> the
  label \<open>-1\<close>.
\<close>

definition demo_engine3b :: BayesianInferenceEngine3 where
  "demo_engine3b =
     \<lparr> paramSpace3 =
         \<lparr> thetaValues3 = [0], wComponentValues = [1, - 4],
           wCombinations = [ [1, 1, 1], [- 4, - 4, - 4] ],
           logPosterior = [((0, [1, 1, 1]), ln (1 / 2)), ((0, [- 4, - 4, - 4]), ln (1 / 2))] \<rparr> \<rparr>"

text \<open>The small engine with a distribution that has collapsed to zero.\<close>

definition demo_engine_zero :: BayesianInferenceEngine where
  "demo_engine_zero =
     demo_engine \<lparr> paramSpace := (paramSpace demo_engine) \<lparr> distribution := [ [0] ] \<rparr> \<rparr>"

text \<open>
  The four-issue game as its constructor builds it, with the pattern \<open>uniform x 0 degrees\<close>
  (angle \<open>0\<close>, weights \<open>[1, 1, 1, 1]\<close>) drawn, and a three-issue game over the small engine.
\<close>

definition initial_game :: NegotiationGame where
  "initial_game = the (new_NegotiationGame None (0, [1, 1, 1, 1]))"

definition demo_game3 :: NegotiationGame3 where
  "demo_game3 =
     \<lparr> engine3 = demo_engine3, round3 = 0, history3 = [], trueTheta3 = 0, trueW3 = [1, 1, 1] \<rparr>"

text \<open>
  The emotion model and the engine as \<open>reset()\<close> of the variant with both code paths
  builds them from the default configuration.
\<close>

definition default_emotionModel :: EmotionModel where
  "default_emotionModel =
     \<lparr> em_q = CONFIG_Q, em_wSelf = CONFIG_W_SELF, em_candX = generateAllOffers CONFIG_Q \<rparr>"

definition default_engine :: BayesianInferenceEngine where
  "default_engine =
     new_BayesianInferenceEngine
       (new_ParameterSpace (the (generateThetaGrid (- 90) 90 5)) (the (generateWGrid (- 4) 4 1)))
       CONFIG_Q CONFIG_W_SELF (generateAllOffers CONFIG_Q)"

lemma zip_upt_snoc:
  "zip (a @ [x]) [0..<Suc (length a)] = zip a [0..<length a] @ [(x, length a)]"
  by simp

lemma dot_sum: "length a \<le> length b \<Longrightarrow> dot a b = (\<Sum>i<length a. a ! i * b ! i)"
proof (induction a rule: rev_induct)
  case Nil
  then show ?case by (simp add: dot_def)
next
  case (snoc x xs)
  have "dot (xs @ [x]) b = dot xs b + x * b ! length xs"
    by (simp add: dot_def)
  moreover have "dot xs b = (\<Sum>i<length xs. xs ! i * b ! i)"
    using snoc by simp
  moreover have "(\<Sum>i<length xs. (xs @ [x]) ! i * b ! i) = (\<Sum>i<length xs. xs ! i * b ! i)"
    by (rule sum.cong) (simp_all add: nth_append)
  ultimately show ?case by (simp add: nth_append)
qed

lemma length_subtractArrays [simp]: "length (subtractArrays a b) = length a"
  by (simp add: subtractArrays_def)

lemma nth_subtractArrays [simp]: "i < length a \<Longrightarrow> subtractArrays a b ! i = a ! i - b ! i"
  by (simp add: subtractArrays_def)

lemma foldl_max_step_Finite:
  "foldl (\<lambda>m x. max_step m (f x)) (Finite a) xs = Finite (fold max (map f xs) a)"
proof (induction xs arbitrary: a)
  case Nil
  then show ?case by simp
next
  case (Cons x xs)
  have "max_step (Finite a) (f x) = Finite (max (f x) a)"
    by (simp add: max_def)
  then show ?case using Cons by simp
qed

lemma foldl_max_step:
  "xs \<noteq> [] \<Longrightarrow> foldl (\<lambda>m x. max_step m (f x)) NegInfinity xs = Finite (Max (f ` set xs))"
proof (cases xs)
  case Nil
  assume "xs \<noteq> []"
  with Nil show ?thesis by simp
next
  case (Cons y ys)
  have "Max (f ` set xs) = Max (set (f y # map f ys))"
    using Cons by simp
  also have "\<dots> = fold max (map f ys) (f y)"
    by (rule Max.set_eq_fold)
  finally show ?thesis using Cons by (simp add: foldl_max_step_Finite)
qed

section \<open>The max-anchored label and its range\<close>





section \<open>The utility formula\<close>

lemma inline_utility_spec:
  assumes "length x = length Qv" "length wOther = length Qv" "length ws = length Qv"
  shows "cos theta * dot wOther (subtractArrays Qv x) + sin theta * dot ws x
         = spec_utility Qv ws x wOther theta"
proof -
  have "dot wOther (subtractArrays Qv x) = (\<Sum>i<length Qv. wOther ! i * (Qv ! i - x ! i))"
    using assms by (simp add: dot_sum)
  moreover have "dot ws x = (\<Sum>i<length Qv. ws ! i * x ! i)"
    using assms by (simp add: dot_sum)
  ultimately show ?thesis by (simp add: spec_utility_def)
qed

text \<open>
  Claim C4. For an offer, a weight vector and proposer weights of the dimension of \<open>Q\<close>, the
  utility of \<open>EmotionModel.utility\<close> is
  \<open>cos(theta) * (wOther . (Q - x)) + sin(theta) * (wSelf . x)\<close>, and \<open>predictEmotion\<close> (a grid
  hypothesis) and \<open>computeTrueEmotion\<close> (the true counterpart) label this same utility.
\<close>

theorem counterpart_utility_formula:
  assumes "length x = length (Q e)" and "length wOther = length (Q e)"
    and "length (wSelf e) = length (Q e)"
    and "length (wGrid (paramSpace e) ! wi) = length (Q e)"
  shows "utility \<lparr> em_q = Q e, em_wSelf = wSelf e, em_candX = candX e \<rparr> x wOther theta
           = spec_utility (Q e) (wSelf e) x wOther theta
         \<and> predictEmotion e ti wi x
           = priv_utilityToEmotion
               (spec_utility (Q e) (wSelf e) x (wGrid (paramSpace e) ! wi)
                  (thetaValues (paramSpace e) ! ti))
               (UMAX e ! ti ! wi)
         \<and> computeTrueEmotion e x theta wOther
           = priv_utilityToEmotion (spec_utility (Q e) (wSelf e) x wOther theta)
               (max_over_candidates (Q e) (wSelf e) (candX e) (cos theta) (sin theta) wOther)"
proof -
  have a: "utility \<lparr> em_q = Q e, em_wSelf = wSelf e, em_candX = candX e \<rparr> x wOther theta
           = spec_utility (Q e) (wSelf e) x wOther theta"
    using inline_utility_spec [OF assms(1) assms(2) assms(3)]
    by (simp add: utility_def Let_def)
  have b: "predictEmotion e ti wi x
           = priv_utilityToEmotion
               (spec_utility (Q e) (wSelf e) x (wGrid (paramSpace e) ! wi)
                  (thetaValues (paramSpace e) ! ti))
               (UMAX e ! ti ! wi)"
    using inline_utility_spec [OF assms(1) assms(4) assms(3)]
    by (simp add: predictEmotion_def Let_def)
  have c: "computeTrueEmotion e x theta wOther
           = priv_utilityToEmotion (spec_utility (Q e) (wSelf e) x wOther theta)
               (max_over_candidates (Q e) (wSelf e) (candX e) (cos theta) (sin theta) wOther)"
    using inline_utility_spec [OF assms(1) assms(2) assms(3)]
    by (simp add: computeTrueEmotion_def Let_def)
  from a b c show ?thesis by blast
qed

lemma demo_engine_fields:
  "Q demo_engine = [7, 5, 5, 5]" "wSelf demo_engine = [2, - 1, 0, 1]"
  "candX demo_engine = [ [0, 0, 0, 0], [7, 0, 0, 0] ]"
  "thetaValues (paramSpace demo_engine) = [0]"
  "wGrid (paramSpace demo_engine) = [ [2, 2, - 2, 2] ]"
  by (simp_all add: demo_engine_def new_BayesianInferenceEngine_def priv_precomputeUMAX_def
        new_ParameterSpace_def Let_def)

theorem counterpart_utility_formula_witness:
  "length [7, 0, 0, 0 :: real] = length (Q demo_engine)
   \<and> length [2, 2, - 2, 2 :: real] = length (Q demo_engine)
   \<and> length (wSelf demo_engine) = length (Q demo_engine)
   \<and> length (wGrid (paramSpace demo_engine) ! 0) = length (Q demo_engine)
   \<and> utility \<lparr> em_q = Q demo_engine, em_wSelf = wSelf demo_engine, em_candX = candX demo_engine \<rparr>
        [7, 0, 0, 0] [2, 2, - 2, 2] 0 = 10"
  using counterpart_utility_formula [of "[7, 0, 0, 0]" demo_engine "[2, 2, - 2, 2]" 0 0 0]
  by (simp add: demo_engine_fields spec_utility_def lessThan_Suc eval_nat_numeral)

section \<open>The cached maximum\<close>

lemma max_over_candidates_Max:
  assumes "cands \<noteq> []"
  shows "max_over_candidates Qv ws cands cosT sinT wOther
         = Finite (Max ((\<lambda>x. cosT * dot wOther (subtractArrays Qv x) + sinT * dot ws x) ` set cands))"
  unfolding max_over_candidates_def Let_def
  using assms by (rule foldl_max_step)

lemma UMAX_nth:
  assumes "ti < Nt (paramSpace e0)" "wi < Nw (paramSpace e0)"
  shows "UMAX (priv_precomputeUMAX e0) ! ti ! wi
         = max_over_candidates (Q e0) (wSelf e0) (candX e0)
             (cos (thetaValues (paramSpace e0) ! ti)) (sin (thetaValues (paramSpace e0) ! ti))
             (wGrid (paramSpace e0) ! wi)"
  using assms by (simp add: priv_precomputeUMAX_def Let_def)



section \<open>The label of the predictors\<close>





section \<open>Brute force against the vertex formula\<close>

lemma counter_values_nat:
  assumes "i < length Qv" "Qv ! i = real n"
  shows "set (counter_values Qv i) = real ` {0..n}"
proof -
  have "nat (\<lfloor>real n\<rfloor> + 1) = Suc n" by simp
  then show ?thesis using assms by (auto simp add: counter_values_def)
qed

lemma set_generateAllOffers:
  "set (generateAllOffers Qv)
   = {[a, b, c, d] | a b c d. a \<in> set (counter_values Qv 0) \<and> b \<in> set (counter_values Qv 1)
        \<and> c \<in> set (counter_values Qv 2) \<and> d \<in> set (counter_values Qv 3)}"
  unfolding generateAllOffers_def by auto

lemma sum_lessThan_4: "(\<Sum>i<4. f i) = f 0 + f 1 + f 2 + f (3::nat)"
  for f :: "nat \<Rightarrow> real"
  by (simp add: eval_nat_numeral lessThan_Suc)

text \<open>One coordinate: the term is linear in \<open>t\<close>, so on \<open>[0, q]\<close> it is below the larger end.\<close>

lemma coordinate_bound:
  fixes A B q t :: real
  assumes "0 \<le> t" "t \<le> q"
  shows "A * (q - t) + B * t \<le> max (A * q) (B * q)"
proof (cases "B \<le> A")
  case True
  have "B * t \<le> A * t" using True assms(1) by (rule mult_right_mono)
  then have "A * (q - t) + B * t \<le> A * q" by (simp add: algebra_simps)
  then show ?thesis by simp
next
  case False
  then have "A \<le> B" by simp
  moreover have "0 \<le> q - t" using assms(2) by simp
  ultimately have "A * (q - t) \<le> B * (q - t)" by (rule mult_right_mono)
  then have "A * (q - t) + B * t \<le> B * q" by (simp add: algebra_simps)
  then show ?thesis by simp
qed

lemma coordinate_attained:
  fixes A B q :: real
  shows "A * (q - (if B * q \<le> A * q then 0 else q)) + B * (if B * q \<le> A * q then 0 else q)
         = max (A * q) (B * q)"
  by (simp add: max_def)

lemma inline_u_4:
  assumes "length Qv = 4" "length ws = 4" "length wOther = 4"
  shows "cosT * dot wOther (subtractArrays Qv [a, b, c, d]) + sinT * dot ws [a, b, c, d]
         = (cosT * wOther ! 0 * (Qv ! 0 - a) + sinT * ws ! 0 * a)
           + (cosT * wOther ! 1 * (Qv ! 1 - b) + sinT * ws ! 1 * b)
           + (cosT * wOther ! 2 * (Qv ! 2 - c) + sinT * ws ! 2 * c)
           + (cosT * wOther ! 3 * (Qv ! 3 - d) + sinT * ws ! 3 * d)"
proof -
  have 1: "dot wOther (subtractArrays Qv [a, b, c, d])
        = wOther ! 0 * (Qv ! 0 - a) + wOther ! 1 * (Qv ! 1 - b)
          + wOther ! 2 * (Qv ! 2 - c) + wOther ! 3 * (Qv ! 3 - d)"
    using assms by (simp add: dot_sum sum_lessThan_4)
  have 2: "dot ws [a, b, c, d] = ws ! 0 * a + ws ! 1 * b + ws ! 2 * c + ws ! 3 * d"
    using assms by (simp add: dot_sum sum_lessThan_4)
  show ?thesis unfolding 1 2 by (simp add: algebra_simps)
qed

lemma max_over_candidates_vertex:
  assumes len: "length Qv = 4" "length ws = 4" "length wOther = 4"
    and nat: "\<forall>i<4. \<exists>n. Qv ! i = real n"
  shows "max_over_candidates Qv ws (generateAllOffers Qv) cosT sinT wOther
         = Finite (\<Sum>i<4. max (cosT * wOther ! i * Qv ! i) (sinT * ws ! i * Qv ! i))"
proof -
  define A where "A = (\<lambda>i. cosT * wOther ! i)"
  define B where "B = (\<lambda>i. sinT * ws ! i)"
  define V where "V = max (A 0 * Qv ! 0) (B 0 * Qv ! 0) + max (A 1 * Qv ! 1) (B 1 * Qv ! 1)
      + max (A 2 * Qv ! 2) (B 2 * Qv ! 2) + max (A 3 * Qv ! 3) (B 3 * Qv ! 3)"
  define u where "u = (\<lambda>x. cosT * dot wOther (subtractArrays Qv x) + sinT * dot ws x)"
  define cands where "cands = generateAllOffers Qv"
  have u4: "u [a, b, c, d] = (A 0 * (Qv ! 0 - a) + B 0 * a) + (A 1 * (Qv ! 1 - b) + B 1 * b)
      + (A 2 * (Qv ! 2 - c) + B 2 * c) + (A 3 * (Qv ! 3 - d) + B 3 * d)" for a b c d
    unfolding u_def A_def B_def by (rule inline_u_4 [OF len])
  from nat have "\<exists>n. Qv ! 0 = real n" by simp
  then obtain n0 where n0: "Qv ! 0 = real n0" ..
  from nat have "\<exists>n. Qv ! 1 = real n" by simp
  then obtain n1 where n1: "Qv ! 1 = real n1" ..
  from nat have "\<exists>n. Qv ! 2 = real n" by simp
  then obtain n2 where n2: "Qv ! 2 = real n2" ..
  from nat have "\<exists>n. Qv ! 3 = real n" by simp
  then obtain n3 where n3: "Qv ! 3 = real n3" ..
  have cv: "set (counter_values Qv 0) = real ` {0..n0}" "set (counter_values Qv 1) = real ` {0..n1}"
    "set (counter_values Qv 2) = real ` {0..n2}" "set (counter_values Qv 3) = real ` {0..n3}"
    using len n0 n1 n2 n3 by (simp_all add: counter_values_nat)
  have mem: "x \<in> set cands \<longleftrightarrow>
      (\<exists>a b c d. x = [a, b, c, d] \<and> a \<in> real ` {0..n0} \<and> b \<in> real ` {0..n1}
         \<and> c \<in> real ` {0..n2} \<and> d \<in> real ` {0..n3})" for x
    unfolding cands_def set_generateAllOffers cv by blast
  define pick where "pick = (\<lambda>i. if B i * Qv ! i \<le> A i * Qv ! i then 0 else Qv ! i)"
  have pick_in: "pick 0 \<in> real ` {0..n0}" "pick 1 \<in> real ` {0..n1}"
    "pick 2 \<in> real ` {0..n2}" "pick 3 \<in> real ` {0..n3}"
    unfolding pick_def n0 n1 n2 n3 by auto
  have xv_in: "[pick 0, pick 1, pick 2, pick 3] \<in> set cands"
    unfolding mem using pick_in by blast
  then have ne: "cands \<noteq> []" by auto
  have att: "A i * (Qv ! i - pick i) + B i * pick i = max (A i * Qv ! i) (B i * Qv ! i)" for i
    unfolding pick_def by (rule coordinate_attained)
  have xv_val: "u [pick 0, pick 1, pick 2, pick 3] = V"
    unfolding u4 V_def att ..
  have bound: "u x \<le> V" if "x \<in> set cands" for x
  proof -
    from that obtain a b c d where x: "x = [a, b, c, d]"
      and r: "a \<in> real ` {0..n0}" "b \<in> real ` {0..n1}" "c \<in> real ` {0..n2}" "d \<in> real ` {0..n3}"
      unfolding mem by blast
    have "0 \<le> a" "a \<le> Qv ! 0" "0 \<le> b" "b \<le> Qv ! 1" "0 \<le> c" "c \<le> Qv ! 2" "0 \<le> d" "d \<le> Qv ! 3"
      using r unfolding n0 n1 n2 n3 by auto
    then have "A 0 * (Qv ! 0 - a) + B 0 * a \<le> max (A 0 * Qv ! 0) (B 0 * Qv ! 0)"
      "A 1 * (Qv ! 1 - b) + B 1 * b \<le> max (A 1 * Qv ! 1) (B 1 * Qv ! 1)"
      "A 2 * (Qv ! 2 - c) + B 2 * c \<le> max (A 2 * Qv ! 2) (B 2 * Qv ! 2)"
      "A 3 * (Qv ! 3 - d) + B 3 * d \<le> max (A 3 * Qv ! 3) (B 3 * Qv ! 3)"
      by (simp_all only: coordinate_bound)
    then show ?thesis
      unfolding x u4 V_def by (intro add_mono)
  qed
  have "Max (u ` set cands) = V"
  proof (rule Max_eqI)
    show "finite (u ` set cands)" by simp
    show "y \<le> V" if "y \<in> u ` set cands" for y using that bound by auto
    show "V \<in> u ` set cands" using xv_in xv_val by force
  qed
  moreover have "max_over_candidates Qv ws cands cosT sinT wOther = Finite (Max (u ` set cands))"
    using max_over_candidates_Max [OF ne] unfolding u_def by simp
  moreover have "(\<Sum>i<4. max (cosT * wOther ! i * Qv ! i) (sinT * ws ! i * Qv ! i)) = V"
    unfolding V_def A_def B_def by (simp add: sum_lessThan_4)
  ultimately show ?thesis unfolding cands_def by simp
qed
lemma max_over_candidates_vertex_nat:
  assumes "Qv = map real ns" and "length ns = 4" and "length ws = 4" and "length wOther = 4"
  shows "max_over_candidates Qv ws (generateAllOffers Qv) cosT sinT wOther
         = Finite (\<Sum>i<4. max (cosT * wOther ! i * Qv ! i) (sinT * ws ! i * Qv ! i))"
proof -
  have len: "length Qv = 4" using assms(1,2) by simp
  have nat: "\<forall>i<4. \<exists>n. Qv ! i = real n"
    using assms(1,2) by auto
  show ?thesis
    by (rule max_over_candidates_vertex [OF len assms(3) assms(4) nat])
qed

text \<open>
  Claim C6. For four-issue quantities that are natural numbers and weights of dimension
  four, the brute-force maximum of the utility over the whole enumeration
  \<open>generateAllOffers(Q)\<close> is the closed-form vertex maximum
  \<open>sum_i max(cos(theta) * w_i * Q_i, sin(theta) * wSelf_i * Q_i)\<close>, for every angle and every
  weight vector.
\<close>

theorem brute_force_is_vertex_max:
  assumes "Qv = map real ns" and "length ns = 4" and "length ws = 4" and "length wOther = 4"
  shows "max_over_candidates Qv ws (generateAllOffers Qv) (cos theta) (sin theta) wOther
         = Finite (vertex_max Qv ws wOther theta)"
proof -
  have "length Qv = 4" using assms(1,2) by simp
  then show ?thesis
    using max_over_candidates_vertex_nat [OF assms, of "cos theta" "sin theta"]
    by (simp add: vertex_max_def)
qed

theorem brute_force_is_vertex_max_witness:
  "[7, 5, 5, 5 :: real] = map real [7, 5, 5, 5] \<and> length [7, 5, 5, 5 :: nat] = 4
   \<and> length [2, - 1, 0, 1 :: real] = 4 \<and> length [2, 2, - 2, 2 :: real] = 4
   \<and> max_over_candidates [7, 5, 5, 5] [2, - 1, 0, 1] (generateAllOffers [7, 5, 5, 5])
        (cos 0) (sin 0) [2, 2, - 2, 2] = Finite 34"
proof -
  have "vertex_max [7, 5, 5, 5] [2, - 1, 0, 1] [2, 2, - 2, 2] 0 = 34"
    by (simp add: vertex_max_def sum_lessThan_4)
  then show ?thesis
    using brute_force_is_vertex_max [of "[7, 5, 5, 5]" "[7, 5, 5, 5]" "[2, - 1, 0, 1]"
        "[2, 2, - 2, 2]" 0]
    by simp
qed

section \<open>Normalisation in the linear domain\<close>

lemma foldl_plus_sum_list: "foldl (+) a xs = a + sum_list xs" for a :: real
  by (induction xs arbitrary: a) simp_all

lemma sum_list_divide: "sum_list (map (\<lambda>v. v / t) xs) = sum_list xs / t" for t :: real
  by (induction xs) (simp_all add: add_divide_distrib)

lemma concat_map_map: "concat (map (map f) xss) = map f (concat xss)"
  by (induction xss) simp_all

lemma sum_list_const: "sum_list (map (\<lambda>_. c) xs) = real (length xs) * c" for c :: real
  by (induction xs) (simp_all add: algebra_simps)

lemma normalize2D_pos:
  assumes "0 < sum_list (concat arr)"
  shows "normalize2D arr = map (map (\<lambda>v. v / sum_list (concat arr))) arr"
  using assms by (simp add: normalize2D_def Let_def foldl_plus_sum_list)

lemma normalize2D_fallback:
  assumes "sum_list (concat arr) \<le> 0"
  shows "normalize2D arr = map (map (\<lambda>_. 1 / real (length (concat arr)))) arr"
  using assms by (simp add: normalize2D_def Let_def foldl_plus_sum_list)

lemma normalize2D_sum:
  assumes "concat arr \<noteq> []"
  shows "sum_list (concat (normalize2D arr)) = 1"
proof (cases "0 < sum_list (concat arr)")
  case True
  then show ?thesis
    by (simp add: normalize2D_pos concat_map_map sum_list_divide)
next
  case False
  then have "sum_list (concat arr) \<le> 0" by simp
  moreover have "real (length (concat arr)) \<noteq> 0" using assms by simp
  ultimately show ?thesis
    by (simp add: normalize2D_fallback concat_map_map sum_list_const)
qed

lemma length_posterior_table [simp]:
  "length (posterior_table e obs x) = Nt (paramSpace e)"
  by (simp add: posterior_table_def Let_def)

lemma length_concat_const_rows:
  "(\<forall>row\<in>set xss. length row = n) \<Longrightarrow> length (concat xss) = length xss * n"
  by (induction xss) simp_all

lemma length_concat_posterior_table:
  "length (concat (posterior_table e obs x)) = Nt (paramSpace e) * Nw (paramSpace e)"
proof -
  have "\<forall>row\<in>set (posterior_table e obs x). length row = Nw (paramSpace e)"
    by (auto simp add: posterior_table_def Let_def)
  from length_concat_const_rows [OF this] show ?thesis by simp
qed

lemma posterior_table_nth:
  assumes "ti < Nt (paramSpace e)" "wi < Nw (paramSpace e)"
  shows "posterior_table e obs x ! ti ! wi
         = distribution (paramSpace e) ! ti ! wi
           * (if predictEmotion e ti wi x = obs then LIKELIHOOD_MATCH else LIKELIHOOD_MISMATCH)"
  using assms by (simp add: posterior_table_def Let_def)

lemma update_distribution:
  "distribution (paramSpace (update e obs x)) = normalize2D (posterior_table e obs x)"
  by (simp add: update_def Let_def)

lemma update_sum_one:
  assumes "0 < Nt (paramSpace e)" "0 < Nw (paramSpace e)"
  shows "sum_list (concat (distribution (paramSpace (update e obs x)))) = 1"
proof -
  have "length (concat (posterior_table e obs x)) \<noteq> 0"
    using assms by (simp add: length_concat_posterior_table)
  then have "concat (posterior_table e obs x) \<noteq> []" by simp
  then show ?thesis by (simp add: update_distribution normalize2D_sum)
qed

lemma update_fallback_uniform:
  assumes "sum_list (concat (posterior_table e obs x)) \<le> 0"
    and "ti < Nt (paramSpace e)" "wi < Nw (paramSpace e)"
  shows "distribution (paramSpace (update e obs x)) ! ti ! wi
         = 1 / real (Nt (paramSpace e) * Nw (paramSpace e))"
proof -
  have row: "length (posterior_table e obs x ! ti) = Nw (paramSpace e)"
    using assms(2) by (simp add: posterior_table_def Let_def)
  show ?thesis
    using assms row
    by (simp add: update_distribution normalize2D_fallback length_concat_posterior_table)
qed

lemma update_normalised_entry:
  assumes "0 < sum_list (concat (posterior_table e obs x))"
    and "ti < Nt (paramSpace e)" "wi < Nw (paramSpace e)"
  shows "distribution (paramSpace (update e obs x)) ! ti ! wi
         = posterior_table e obs x ! ti ! wi / sum_list (concat (posterior_table e obs x))"
proof -
  have row: "length (posterior_table e obs x ! ti) = Nw (paramSpace e)"
    using assms(2) by (simp add: posterior_table_def Let_def)
  show ?thesis
    using assms row by (simp add: update_distribution normalize2D_pos)
qed

section \<open>The Bayes update in the linear domain\<close>

lemma is_distribution_row:
  assumes "is_distribution nt nw d" "ti < nt"
  shows "length (d ! ti) = nw" and "\<forall>p\<in>set (d ! ti). 0 \<le> p"
proof -
  have "d ! ti \<in> set d" using assms by (simp add: is_distribution_def)
  then have r: "length (d ! ti) = nw \<and> (\<forall>p\<in>set (d ! ti). 0 \<le> p)"
    using assms(1) by (simp add: is_distribution_def)
  from r show "length (d ! ti) = nw" by simp
  from r show "\<forall>p\<in>set (d ! ti). 0 \<le> p" by simp
qed

lemma is_distribution_nth:
  assumes "is_distribution nt nw d" "ti < nt" "wi < nw"
  shows "0 \<le> d ! ti ! wi"
  using is_distribution_row [OF assms(1,2)] assms(3) by simp

lemma is_distribution_table:
  assumes "is_distribution nt nw d"
  shows "d = map (\<lambda>ti. map (\<lambda>wi. d ! ti ! wi) [0..<nw]) [0..<nt]"
proof (rule nth_equalityI)
  show "length d = length (map (\<lambda>ti. map (\<lambda>wi. d ! ti ! wi) [0..<nw]) [0..<nt])"
    using assms by (simp add: is_distribution_def)
next
  fix i assume "i < length d"
  then have i: "i < nt" using assms by (simp add: is_distribution_def)
  have "d ! i = map (\<lambda>wi. d ! i ! wi) [0..<nw]"
    using is_distribution_row(1) [OF assms i] by (simp add: list_eq_iff_nth_eq)
  then show "d ! i = map (\<lambda>ti. map (\<lambda>wi. d ! ti ! wi) [0..<nw]) [0..<nt] ! i"
    using i by simp
qed

lemma sum_list_concat_map: "sum_list (concat xss) = sum_list (map sum_list xss)"
  for xss :: "real list list"
  by (induction xss) simp_all

lemma sum_list_table:
  "sum_list (concat (map (\<lambda>ti. map (\<lambda>wi. g ti wi) [0..<nw]) [0..<nt]))
   = sum_list (map (\<lambda>ti. sum_list (map (\<lambda>wi. g ti wi) [0..<nw])) [0..<nt])"
  for g :: "nat \<Rightarrow> nat \<Rightarrow> real"
  by (simp add: sum_list_concat_map comp_def)

lemma sum_list_table_mono:
  fixes f g :: "nat \<Rightarrow> nat \<Rightarrow> real"
  assumes "\<And>ti wi. ti < nt \<Longrightarrow> wi < nw \<Longrightarrow> f ti wi \<le> g ti wi"
  shows "sum_list (map (\<lambda>ti. sum_list (map (\<lambda>wi. f ti wi) [0..<nw])) [0..<nt])
         \<le> sum_list (map (\<lambda>ti. sum_list (map (\<lambda>wi. g ti wi) [0..<nw])) [0..<nt])"
proof (rule sum_list_mono)
  fix ti assume "ti \<in> set [0..<nt]"
  then have ti: "ti < nt" by simp
  show "sum_list (map (\<lambda>wi. f ti wi) [0..<nw]) \<le> sum_list (map (\<lambda>wi. g ti wi) [0..<nw])"
    by (rule sum_list_mono) (use ti assms in simp)
qed

lemma sum_list_table_scale:
  fixes f :: "nat \<Rightarrow> nat \<Rightarrow> real"
  shows "sum_list (map (\<lambda>ti. sum_list (map (\<lambda>wi. f ti wi * c) [0..<nw])) [0..<nt])
         = sum_list (map (\<lambda>ti. sum_list (map (\<lambda>wi. f ti wi) [0..<nw])) [0..<nt]) * c"
  by (simp add: sum_list_mult_const)

lemma likelihood_bounds:
  "0 < LIKELIHOOD_MISMATCH" "LIKELIHOOD_MISMATCH \<le> LIKELIHOOD_MATCH"
  by (simp_all add: LIKELIHOOD_MISMATCH_def LIKELIHOOD_MATCH_def)

lemma posterior_table_sum_pos:
  assumes "is_distribution (Nt (paramSpace e)) (Nw (paramSpace e)) (distribution (paramSpace e))"
  shows "LIKELIHOOD_MISMATCH \<le> sum_list (concat (posterior_table e obs x))"
proof -
  let ?nt = "Nt (paramSpace e)" and ?nw = "Nw (paramSpace e)"
  let ?d = "distribution (paramSpace e)"
  let ?L = "\<lambda>ti wi. if predictEmotion e ti wi x = obs then LIKELIHOOD_MATCH else LIKELIHOOD_MISMATCH"
  have pt: "posterior_table e obs x = map (\<lambda>ti. map (\<lambda>wi. ?d ! ti ! wi * ?L ti wi) [0..<?nw]) [0..<?nt]"
    by (simp add: posterior_table_def Let_def)
  have "sum_list (concat ?d)
        = sum_list (map (\<lambda>ti. sum_list (map (\<lambda>wi. ?d ! ti ! wi) [0..<?nw])) [0..<?nt])"
    using is_distribution_table [OF assms] sum_list_table [of "\<lambda>ti wi. ?d ! ti ! wi" ?nw ?nt]
    by simp
  then have one: "sum_list (map (\<lambda>ti. sum_list (map (\<lambda>wi. ?d ! ti ! wi) [0..<?nw])) [0..<?nt]) = 1"
    using assms by (simp add: is_distribution_def)
  have "sum_list (map (\<lambda>ti. sum_list (map (\<lambda>wi. ?d ! ti ! wi * LIKELIHOOD_MISMATCH) [0..<?nw])) [0..<?nt])
        \<le> sum_list (map (\<lambda>ti. sum_list (map (\<lambda>wi. ?d ! ti ! wi * ?L ti wi) [0..<?nw])) [0..<?nt])"
  proof (rule sum_list_table_mono)
    fix ti wi assume "ti < ?nt" "wi < ?nw"
    then have "0 \<le> ?d ! ti ! wi" using is_distribution_nth [OF assms] by simp
    moreover have "LIKELIHOOD_MISMATCH \<le> ?L ti wi" using likelihood_bounds by simp
    ultimately show "?d ! ti ! wi * LIKELIHOOD_MISMATCH \<le> ?d ! ti ! wi * ?L ti wi"
      by (rule mult_left_mono [rotated])
  qed
  then have "LIKELIHOOD_MISMATCH
        \<le> sum_list (map (\<lambda>ti. sum_list (map (\<lambda>wi. ?d ! ti ! wi * ?L ti wi) [0..<?nw])) [0..<?nt])"
    unfolding sum_list_table_scale one by simp
  then show ?thesis unfolding pt sum_list_table .
qed

section \<open>Normalisation in the log domain\<close>

lemma js_max_Finite:
  assumes "arr \<noteq> []"
  shows "js_max arr = Finite (Max (set arr))"
  using foldl_max_step [OF assms, of "\<lambda>x. x"] by (simp add: js_max_def)

lemma js_max_Nil [simp]: "js_max [] = NegInfinity"
  by (simp add: js_max_def)

lemma sum_list_exp_pos:
  fixes f :: "'a \<Rightarrow> real"
  assumes "xs \<noteq> []"
  shows "0 < sum_list (map (\<lambda>x. exp (f x)) xs)"
proof -
  have "0 \<le> sum_list (map (\<lambda>x. exp (f x)) ys)" for ys
    by (induction ys) (simp_all add: add_nonneg_nonneg)
  then show ?thesis using assms
    by (cases xs) (simp_all add: add_pos_nonneg)
qed

lemma sum_list_exp_shift:
  "sum_list (map (\<lambda>x. exp (f x - m)) xs) = sum_list (map (\<lambda>x. exp (f x)) xs) / exp m"
  for f :: "'a \<Rightarrow> real"
  by (induction xs) (simp_all add: exp_diff add_divide_distrib)

lemma logsumexp_Finite:
  assumes "logArr \<noteq> []"
  shows "logsumexp logArr = Finite (ln (sum_list (map exp logArr)))"
proof -
  let ?m = "Max (set logArr)"
  let ?S = "sum_list (map (\<lambda>x. exp x) logArr)"
  have S: "0 < ?S" using sum_list_exp_pos [OF assms, of "\<lambda>x. x"] by simp
  have "sum_list (map (\<lambda>x. exp (x - ?m)) logArr) = ?S / exp ?m"
    using sum_list_exp_shift [of "\<lambda>x. x" ?m logArr] by simp
  then have "?m + ln (sum_list (map (\<lambda>x. exp (x - ?m)) logArr)) = ln ?S"
    using S by (simp add: ln_div)
  then show ?thesis
    using js_max_Finite [OF assms]
    by (simp add: logsumexp_def sum_arr_def foldl_plus_sum_list)
qed

lemma normalizeLogPosterior_entries:
  assumes "logPosterior ps \<noteq> []"
  shows "logPosterior (priv_normalizeLogPosterior ps)
         = map (\<lambda>p. (fst p, snd p - ln (sum_list (map (\<lambda>p. exp (snd p)) (logPosterior ps)))))
             (logPosterior ps)"
proof -
  have ne: "map snd (logPosterior ps) \<noteq> []" using assms by simp
  have "map exp (map snd (logPosterior ps)) = map (\<lambda>p. exp (snd p)) (logPosterior ps)"
    by simp
  then have "logsumexp (map snd (logPosterior ps))
             = Finite (ln (sum_list (map (\<lambda>p. exp (snd p)) (logPosterior ps))))"
    using logsumexp_Finite [OF ne] by (simp only:)
  then show ?thesis
    by (simp add: priv_normalizeLogPosterior_def Let_def case_prod_unfold)
qed

lemma normalizeLogPosterior_sum:
  assumes "logPosterior ps \<noteq> []"
  shows "sum_list (map (\<lambda>p. exp (snd p)) (logPosterior (priv_normalizeLogPosterior ps))) = 1"
proof -
  let ?S = "sum_list (map (\<lambda>p. exp (snd p)) (logPosterior ps))"
  have S: "0 < ?S"
    using sum_list_exp_pos [OF assms, of snd] .
  have "sum_list (map (\<lambda>p. exp (snd p)) (logPosterior (priv_normalizeLogPosterior ps)))
        = sum_list (map (\<lambda>p. exp (snd p - ln ?S)) (logPosterior ps))"
    unfolding normalizeLogPosterior_entries [OF assms]
    by (simp add: comp_def)
  also have "\<dots> = sum_list (map (\<lambda>p. exp (snd p)) (logPosterior ps)) / exp (ln ?S)"
    by (rule sum_list_exp_shift)
  also have "\<dots> = 1" using S by simp
  finally show ?thesis .
qed

section \<open>The Bayes update in the log domain\<close>

lemma length_map_entry [simp]: "length (AList.map_entry k f lp) = length lp"
  by (induction lp) simp_all

lemma map_entry_distinct:
  assumes "distinct (map fst lp)"
  shows "AList.map_entry k f lp = map (\<lambda>p. (fst p, if fst p = k then f (snd p) else snd p)) lp"
  using assms
proof (induction lp)
  case Nil
  then show ?case by simp
next
  case (Cons p lp)
  show ?case
  proof (cases "fst p = k")
    case True
    then have "k \<notin> fst ` set lp" using Cons.prems by simp
    then have "\<forall>q\<in>set lp. fst q \<noteq> k" by (metis imageI)
    then have "map (\<lambda>p. (fst p, if fst p = k then f (snd p) else snd p)) lp = lp"
      by (simp add: map_idI)
    with True show ?thesis by simp
  next
    case False
    with Cons show ?thesis by simp
  qed
qed

lemma length_add_all [simp]: "length (add_all h lp ks) = length lp"
  unfolding add_all_def by (induction ks arbitrary: lp) simp_all

lemma add_all_distinct:
  assumes "distinct (map fst lp)" "distinct ks"
  shows "add_all h lp ks
         = map (\<lambda>p. (fst p, if fst p \<in> set ks then snd p + h (fst p) else snd p)) lp"
  using assms
proof (induction ks arbitrary: lp)
  case Nil
  then show ?case by (simp add: add_all_def)
next
  case (Cons k ks)
  let ?lp1 = "map (\<lambda>p. (fst p, if fst p = k then snd p + h k else snd p)) lp"
  have d1: "distinct (map fst ?lp1)" using Cons.prems(1) by (simp add: comp_def)
  have "add_all h lp (k # ks) = add_all h ?lp1 ks"
    using map_entry_distinct [OF Cons.prems(1)] by (simp add: add_all_def)
  also have "\<dots> = map (\<lambda>p. (fst p, if fst p \<in> set ks then snd p + h (fst p) else snd p)) ?lp1"
    using Cons.IH [OF d1] Cons.prems(2) by simp
  also have "\<dots> = map (\<lambda>p. (fst p, if fst p \<in> set (k # ks) then snd p + h (fst p) else snd p)) lp"
    using Cons.prems(2) by auto
  finally show ?case .
qed

lemma fold_option_total:
  assumes "\<And>theta w. f theta w = Some (g theta w)"
  shows "foldl (\<lambda>acc (theta, w).
                 case acc of
                   None \<Rightarrow> None
                 | Some lp \<Rightarrow>
                     (case f theta w of
                        None \<Rightarrow> None
                      | Some l \<Rightarrow> Some (AList.map_entry (priv_key theta w) (\<lambda>v. v + l) lp)))
          (Some lp0) ks
         = Some (add_all (\<lambda>k. g (fst k) (snd k)) lp0 ks)"
proof (induction ks arbitrary: lp0)
  case Nil
  then show ?case by (simp add: add_all_def)
next
  case (Cons k ks)
  obtain theta w where k: "k = (theta, w)" by (cases k)
  show ?case
    using Cons.IH [of "AList.map_entry k (\<lambda>v. v + g theta w) lp0"]
    by (simp add: k assms priv_key_def add_all_def)
qed

lemma computeTrueEmotion3_Some:
  assumes "priv_computeScale cfg = Some s" "s \<noteq> 0"
  shows "computeTrueEmotion3 cosDeg cfg offer theta wOther
         = Some (max (- 1) (min (cfg_EMOTION_RANGE_MAX cfg)
             \<lfloor>(dot offer (cfg_W_SELF cfg)
                + cosDeg theta * dot (subtractArrays (cfg_Q cfg) offer) wOther) / s\<rfloor>))"
  using assms by (simp add: computeTrueEmotion3_def utility3_def Let_def)

lemma update3_Some:
  assumes "priv_computeScale cfg = Some s" "s \<noteq> 0"
  shows "update3 cosDeg cfg e offer obs
         = Some (e \<lparr> paramSpace3 := priv_normalizeLogPosterior
              ((paramSpace3 e) \<lparr> logPosterior :=
                 add_all (log_likelihood3 cosDeg cfg offer obs) (logPosterior (paramSpace3 e))
                   (grid_keys (paramSpace3 e)) \<rparr>) \<rparr>)"
proof -
  let ?f = "\<lambda>theta w.
            case computeTrueEmotion3 cosDeg cfg offer theta w of
              None \<Rightarrow> None
            | Some predictedEmotion \<Rightarrow>
                if predictedEmotion = obs
                then Some (ln (cfg_LIKELIHOOD_MATCH cfg))
                else Some (ln (cfg_LIKELIHOOD_MISMATCH cfg))"
  have f: "?f theta w = Some (log_likelihood3 cosDeg cfg offer obs (theta, w))" for theta w
    using computeTrueEmotion3_Some [OF assms, of cosDeg offer theta w]
    by (simp add: log_likelihood3_def)
  show ?thesis
    unfolding update3_def updateWithLogLikelihood_def Let_def
    using fold_option_total [of ?f "\<lambda>theta w. log_likelihood3 cosDeg cfg offer obs (theta, w)", OF f]
    by simp
qed

lemma update3_entries:
  assumes "priv_computeScale cfg = Some s" "s \<noteq> 0"
    and "map fst (logPosterior (paramSpace3 e)) = grid_keys (paramSpace3 e)"
    and "distinct (grid_keys (paramSpace3 e))"
    and "logPosterior (paramSpace3 e) \<noteq> []"
  shows "\<exists>e'. update3 cosDeg cfg e offer obs = Some e'
           \<and> logPosterior (paramSpace3 e')
             = map (\<lambda>p. (fst p, snd p + log_likelihood3 cosDeg cfg offer obs (fst p)
                   - ln (sum_list (map (\<lambda>q. exp (snd q + log_likelihood3 cosDeg cfg offer obs (fst q)))
                                    (logPosterior (paramSpace3 e))))))
                 (logPosterior (paramSpace3 e))"
proof -
  let ?lp = "logPosterior (paramSpace3 e)"
  let ?h = "log_likelihood3 cosDeg cfg offer obs"
  let ?lp1 = "map (\<lambda>p. (fst p, snd p + ?h (fst p))) ?lp"
  have d: "distinct (map fst ?lp)" using assms(3,4) by simp
  have "add_all ?h ?lp (grid_keys (paramSpace3 e))
        = map (\<lambda>p. (fst p, if fst p \<in> set (grid_keys (paramSpace3 e))
                             then snd p + ?h (fst p) else snd p)) ?lp"
    by (rule add_all_distinct [OF d assms(4)])
  also have "\<dots> = ?lp1"
  proof (rule map_cong [OF refl])
    fix p assume "p \<in> set ?lp"
    then have "fst p \<in> set (map fst ?lp)" by simp
    then have "fst p \<in> set (grid_keys (paramSpace3 e))" using assms(3) by simp
    then show "(fst p, if fst p \<in> set (grid_keys (paramSpace3 e))
                       then snd p + ?h (fst p) else snd p) = (fst p, snd p + ?h (fst p))"
      by simp
  qed
  finally have a: "add_all ?h ?lp (grid_keys (paramSpace3 e)) = ?lp1" .
  let ?ps1 = "(paramSpace3 e) \<lparr> logPosterior := ?lp1 \<rparr>"
  have ne: "logPosterior ?ps1 \<noteq> []" using assms(5) by simp
  have "logPosterior (priv_normalizeLogPosterior ?ps1)
        = map (\<lambda>p. (fst p, snd p - ln (sum_list (map (\<lambda>p. exp (snd p)) ?lp1)))) ?lp1"
    using normalizeLogPosterior_entries [OF ne] by simp
  also have "\<dots> = map (\<lambda>p. (fst p, snd p + ?h (fst p)
                   - ln (sum_list (map (\<lambda>q. exp (snd q + ?h (fst q))) ?lp)))) ?lp"
    by (simp add: comp_def)
  finally show ?thesis
    using update3_Some [OF assms(1,2), of cosDeg e offer obs] a by simp
qed

lemma update3_sum_one:
  assumes "priv_computeScale cfg = Some s" "s \<noteq> 0"
    and "logPosterior (paramSpace3 e) \<noteq> []"
  shows "\<exists>e'. update3 cosDeg cfg e offer obs = Some e'
           \<and> sum_list (map (\<lambda>p. exp (snd p)) (logPosterior (paramSpace3 e'))) = 1"
proof -
  let ?ps1 = "(paramSpace3 e) \<lparr> logPosterior :=
      add_all (log_likelihood3 cosDeg cfg offer obs) (logPosterior (paramSpace3 e))
        (grid_keys (paramSpace3 e)) \<rparr>"
  have "length (logPosterior ?ps1) = length (logPosterior (paramSpace3 e))" by simp
  then have ne: "logPosterior ?ps1 \<noteq> []" using assms(3) by (metis length_0_conv)
  show ?thesis
    using update3_Some [OF assms(1,2), of cosDeg e offer obs] normalizeLogPosterior_sum [OF ne]
    by simp
qed

section \<open>Claims on the Bayes update\<close>

lemma exp_log_likelihood3:
  assumes "0 < cfg_LIKELIHOOD_MATCH cfg" "0 < cfg_LIKELIHOOD_MISMATCH cfg"
  shows "exp (log_likelihood3 cosDeg cfg offer obs k)
         = (if computeTrueEmotion3 cosDeg cfg offer (fst k) (snd k) = Some obs
            then cfg_LIKELIHOOD_MATCH cfg else cfg_LIKELIHOOD_MISMATCH cfg)"
  using assms by (simp add: log_likelihood3_def)

text \<open>
  Claim C1. Linear domain (four issues): for a prior that is a probability table over the
  grid, \<open>update\<close> gives every hypothesis \<open>(ti, wi)\<close> the weight prior times \<open>L\<close>, with
  \<open>L = MATCH = 1 - 1e-9\<close> when the predicted label equals the observed one and
  \<open>L = MISMATCH = (1 - MATCH) / (9 - 1) = 1e-9 / 8\<close> otherwise, and stores that weight
  divided by the (positive) sum of all weights. Log domain (three issues): \<open>update\<close> returns,
  and the exponential of every stored entry is the exponential of the prior entry times
  \<open>L\<close>, divided by the sum of these products over the grid.
\<close>

theorem update_is_bayes_rule:
  assumes "is_distribution (Nt (paramSpace e)) (Nw (paramSpace e)) (distribution (paramSpace e))"
    and "ti < Nt (paramSpace e)" and "wi < Nw (paramSpace e)"
    and "priv_computeScale cfg = Some s" and "s \<noteq> 0"
    and "0 < cfg_LIKELIHOOD_MATCH cfg" and "0 < cfg_LIKELIHOOD_MISMATCH cfg"
    and "map fst (logPosterior (paramSpace3 e3)) = grid_keys (paramSpace3 e3)"
    and "distinct (grid_keys (paramSpace3 e3))"
    and "i < length (logPosterior (paramSpace3 e3))"
  shows "LIKELIHOOD_MATCH = 1 - 1 / 10 ^ 9
         \<and> LIKELIHOOD_MISMATCH = (1 - LIKELIHOOD_MATCH) / (9 - 1)
         \<and> LIKELIHOOD_MISMATCH = (1 / 10 ^ 9) / 8
         \<and> posterior_table e obs x ! ti ! wi
             = distribution (paramSpace e) ! ti ! wi
               * (if predictEmotion e ti wi x = obs then LIKELIHOOD_MATCH else LIKELIHOOD_MISMATCH)
         \<and> 0 < sum_list (concat (posterior_table e obs x))
         \<and> distribution (paramSpace (update e obs x)) ! ti ! wi
             = posterior_table e obs x ! ti ! wi / sum_list (concat (posterior_table e obs x))
         \<and> (\<exists>e3'. update3 cosDeg cfg e3 offer obs = Some e3'
               \<and> length (logPosterior (paramSpace3 e3')) = length (logPosterior (paramSpace3 e3))
               \<and> fst (logPosterior (paramSpace3 e3') ! i) = fst (logPosterior (paramSpace3 e3) ! i)
               \<and> exp (snd (logPosterior (paramSpace3 e3') ! i))
                   = exp (snd (logPosterior (paramSpace3 e3) ! i))
                     * (if computeTrueEmotion3 cosDeg cfg offer (fst (fst (logPosterior (paramSpace3 e3) ! i)))
                             (snd (fst (logPosterior (paramSpace3 e3) ! i))) = Some obs
                        then cfg_LIKELIHOOD_MATCH cfg else cfg_LIKELIHOOD_MISMATCH cfg)
                     / sum_list (map (\<lambda>q. exp (snd q)
                          * (if computeTrueEmotion3 cosDeg cfg offer (fst (fst q)) (snd (fst q)) = Some obs
                             then cfg_LIKELIHOOD_MATCH cfg else cfg_LIKELIHOOD_MISMATCH cfg))
                        (logPosterior (paramSpace3 e3))))"
proof -
  have cst: "LIKELIHOOD_MATCH = 1 - 1 / 10 ^ 9"
    "LIKELIHOOD_MISMATCH = (1 - LIKELIHOOD_MATCH) / (9 - 1)"
    "LIKELIHOOD_MISMATCH = (1 / 10 ^ 9) / 8"
    by (simp_all add: LIKELIHOOD_MATCH_def LIKELIHOOD_MISMATCH_def)
  have entry: "posterior_table e obs x ! ti ! wi
             = distribution (paramSpace e) ! ti ! wi
               * (if predictEmotion e ti wi x = obs then LIKELIHOOD_MATCH else LIKELIHOOD_MISMATCH)"
    by (rule posterior_table_nth [OF assms(2,3)])
  have pos: "0 < sum_list (concat (posterior_table e obs x))"
    using posterior_table_sum_pos [OF assms(1), of obs x] likelihood_bounds(1) by linarith
  have norm: "distribution (paramSpace (update e obs x)) ! ti ! wi
             = posterior_table e obs x ! ti ! wi / sum_list (concat (posterior_table e obs x))"
    by (rule update_normalised_entry [OF pos assms(2,3)])
  let ?lp = "logPosterior (paramSpace3 e3)"
  let ?h = "log_likelihood3 cosDeg cfg offer obs"
  let ?L = "\<lambda>k. if computeTrueEmotion3 cosDeg cfg offer (fst k) (snd k) = Some obs
                 then cfg_LIKELIHOOD_MATCH cfg else cfg_LIKELIHOOD_MISMATCH cfg"
  have ne: "?lp \<noteq> []" using assms(10) by auto
  obtain e3' where u: "update3 cosDeg cfg e3 offer obs = Some e3'"
    and lp': "logPosterior (paramSpace3 e3')
             = map (\<lambda>p. (fst p, snd p + ?h (fst p)
                   - ln (sum_list (map (\<lambda>q. exp (snd q + ?h (fst q))) ?lp)))) ?lp"
    using update3_entries [OF assms(4,5,8,9) ne, of cosDeg offer obs] by blast
  have eL: "exp (?h k) = ?L k" for k
    by (rule exp_log_likelihood3 [OF assms(6,7)])
  have S: "sum_list (map (\<lambda>q. exp (snd q + ?h (fst q))) ?lp)
           = sum_list (map (\<lambda>q. exp (snd q) * ?L (fst q)) ?lp)"
    by (simp only: exp_add eL)
  have Spos: "0 < sum_list (map (\<lambda>q. exp (snd q + ?h (fst q))) ?lp)"
    by (rule sum_list_exp_pos [OF ne])
  have "exp (snd (logPosterior (paramSpace3 e3') ! i))
        = exp (snd (?lp ! i) + ?h (fst (?lp ! i)))
          / sum_list (map (\<lambda>q. exp (snd q + ?h (fst q))) ?lp)"
    using assms(10) Spos by (simp add: lp' exp_diff)
  also have "\<dots> = exp (snd (?lp ! i)) * ?L (fst (?lp ! i))
                   / sum_list (map (\<lambda>q. exp (snd q) * ?L (fst q)) ?lp)"
    by (simp only: S exp_add eL)
  finally have ex: "exp (snd (logPosterior (paramSpace3 e3') ! i))
        = exp (snd (?lp ! i)) * ?L (fst (?lp ! i))
          / sum_list (map (\<lambda>q. exp (snd q) * ?L (fst q)) ?lp)" .
  have len: "length (logPosterior (paramSpace3 e3')) = length ?lp" by (simp add: lp')
  have key: "fst (logPosterior (paramSpace3 e3') ! i) = fst (?lp ! i)"
    using assms(10) by (simp add: lp')
  from cst entry pos norm u len key ex show ?thesis by blast
qed

lemma demo_engine_space:
  "Nt (paramSpace demo_engine) = 1" "Nw (paramSpace demo_engine) = 1"
  "distribution (paramSpace demo_engine) = [ [1] ]"
  by (simp_all add: demo_engine_def new_BayesianInferenceEngine_def priv_precomputeUMAX_def
        new_ParameterSpace_def Let_def)

lemma demo_engine_zero_space:
  "Nt (paramSpace demo_engine_zero) = 1" "Nw (paramSpace demo_engine_zero) = 1"
  "distribution (paramSpace demo_engine_zero) = [ [0] ]"
  by (simp_all add: demo_engine_zero_def demo_engine_space)

lemma CONFIG3_scale: "priv_computeScale CONFIG3 = Some (144 / 7)"
  by (simp add: priv_computeScale_def CONFIG3_def js_max_def sum_arr_def Let_def)

lemma demo_engine3_keys:
  "logPosterior (paramSpace3 demo_engine3) = [((0, [1, 1, 1]), 0)]"
  "grid_keys (paramSpace3 demo_engine3) = [(0, [1, 1, 1])]"
  by (simp_all add: demo_engine3_def grid_keys_def priv_key_def)

lemma demo_engine2_space:
  "Nt (paramSpace demo_engine2) = 1" "Nw (paramSpace demo_engine2) = 2"
  "distribution (paramSpace demo_engine2) = [ [1 / 2, 1 / 2] ]"
  by (simp_all add: demo_engine2_def new_BayesianInferenceEngine_def priv_precomputeUMAX_def
        new_ParameterSpace_def Let_def)

lemma demo_engine2_labels:
  "predictEmotion demo_engine2 0 0 [7, 0, 0, 0] = - 1"
  "predictEmotion demo_engine2 0 1 [7, 0, 0, 0] = 0"
  by (simp_all add: demo_engine2_def predictEmotion_def new_BayesianInferenceEngine_def
        priv_precomputeUMAX_def max_over_candidates_def new_ParameterSpace_def
        dot_def subtractArrays_def EMOTION_RANGE_MAX_def Let_def)

lemma demo_engine3b_keys:
  "logPosterior (paramSpace3 demo_engine3b)
     = [((0, [1, 1, 1]), ln (1 / 2)), ((0, [- 4, - 4, - 4]), ln (1 / 2))]"
  "grid_keys (paramSpace3 demo_engine3b) = [(0, [1, 1, 1]), (0, [- 4, - 4, - 4])]"
  by (simp_all add: demo_engine3b_def grid_keys_def priv_key_def)

lemma demo_engine3b_labels:
  "computeTrueEmotion3 double_cosDeg CONFIG3 [7, 0, 0] 0 [1, 1, 1] = Some 1"
  "computeTrueEmotion3 double_cosDeg CONFIG3 [7, 0, 0] 0 [- 4, - 4, - 4] = Some (- 1)"
proof -
  have s: "(144 / 7 :: real) \<noteq> 0" by simp
  show "computeTrueEmotion3 double_cosDeg CONFIG3 [7, 0, 0] 0 [1, 1, 1] = Some 1"
    unfolding computeTrueEmotion3_Some [OF CONFIG3_scale s]
    by (simp add: dot_def subtractArrays_def CONFIG3_def double_cosDeg_def)
  show "computeTrueEmotion3 double_cosDeg CONFIG3 [7, 0, 0] 0 [- 4, - 4, - 4] = Some (- 1)"
    unfolding computeTrueEmotion3_Some [OF CONFIG3_scale s]
    by (simp add: dot_def subtractArrays_def CONFIG3_def double_cosDeg_def)
qed

theorem update_is_bayes_rule_witness:
  "predictEmotion demo_engine2 0 0 [7, 0, 0, 0] = - 1
   \<and> predictEmotion demo_engine2 0 1 [7, 0, 0, 0] = 0
   \<and> distribution (paramSpace demo_engine2) = [ [1 / 2, 1 / 2] ]
   \<and> distribution (paramSpace (update demo_engine2 (- 1) [7, 0, 0, 0])) ! 0 ! 0
       = 7999999992 / 7999999993
   \<and> distribution (paramSpace (update demo_engine2 (- 1) [7, 0, 0, 0])) ! 0 ! 1
       = 1 / 7999999993
   \<and> computeTrueEmotion3 double_cosDeg CONFIG3 [7, 0, 0] 0 [1, 1, 1] = Some 1
   \<and> computeTrueEmotion3 double_cosDeg CONFIG3 [7, 0, 0] 0 [- 4, - 4, - 4] = Some (- 1)
   \<and> map (\<lambda>p. exp (snd p)) (logPosterior (paramSpace3 demo_engine3b)) = [1 / 2, 1 / 2]
   \<and> (\<exists>e3'. update3 double_cosDeg CONFIG3 demo_engine3b [7, 0, 0] 1 = Some e3'
         \<and> exp (snd (logPosterior (paramSpace3 e3') ! 0)) = 7999999992 / 7999999993
         \<and> exp (snd (logPosterior (paramSpace3 e3') ! 1)) = 1 / 7999999993)"
proof -
  have d: "is_distribution (Nt (paramSpace demo_engine2)) (Nw (paramSpace demo_engine2))
             (distribution (paramSpace demo_engine2))"
    by (simp add: demo_engine2_space is_distribution_def)
  have lk: "0 < cfg_LIKELIHOOD_MATCH CONFIG3" "0 < cfg_LIKELIHOOD_MISMATCH CONFIG3"
    by (simp_all add: CONFIG3_def)
  have lv: "cfg_LIKELIHOOD_MATCH CONFIG3 = 999999999 / 1000000000"
    "cfg_LIKELIHOOD_MISMATCH CONFIG3 = 1 / 8000000000"
    by (simp_all add: CONFIG3_def)
  have lv4: "LIKELIHOOD_MATCH = 999999999 / 1000000000" "LIKELIHOOD_MISMATCH = 1 / 8000000000"
    by (simp_all add: LIKELIHOOD_MATCH_def LIKELIHOOD_MISMATCH_def)
  have s: "(144 / 7 :: real) \<noteq> 0" by simp
  have k: "map fst (logPosterior (paramSpace3 demo_engine3b)) = grid_keys (paramSpace3 demo_engine3b)"
    "distinct (grid_keys (paramSpace3 demo_engine3b))"
    by (simp_all add: demo_engine3b_keys)
  have l0: "0 < length (logPosterior (paramSpace3 demo_engine3b))"
    and l1: "1 < length (logPosterior (paramSpace3 demo_engine3b))"
    by (simp_all add: demo_engine3b_keys)
  have i0: "(0::nat) < Nt (paramSpace demo_engine2)" "(0::nat) < Nw (paramSpace demo_engine2)"
    and i1: "(1::nat) < Nw (paramSpace demo_engine2)"
    by (simp_all add: demo_engine2_space)
  note t0 = update_is_bayes_rule [OF d i0 CONFIG3_scale s lk k l0,
      where obs = "- 1" and x = "[7, 0, 0, 0]" and offer = "[7, 0, 0]" and cosDeg = double_cosDeg]
  note t1 = update_is_bayes_rule [OF d i0(1) i1 CONFIG3_scale s lk k l1,
      where obs = "- 1" and x = "[7, 0, 0, 0]" and offer = "[7, 0, 0]" and cosDeg = double_cosDeg]
  note t2 = update_is_bayes_rule [OF d i0 CONFIG3_scale s lk k l0,
      where obs = 1 and x = "[7, 0, 0, 0]" and offer = "[7, 0, 0]" and cosDeg = double_cosDeg]
  note t3 = update_is_bayes_rule [OF d i0 CONFIG3_scale s lk k l1,
      where obs = 1 and x = "[7, 0, 0, 0]" and offer = "[7, 0, 0]" and cosDeg = double_cosDeg]
  have lb: "predictEmotion demo_engine2 0 (Suc 0) [7, 0, 0, 0] = 0"
    using demo_engine2_labels(2) by simp
  have pt: "posterior_table demo_engine2 (- 1) [7, 0, 0, 0]
            = [ [999999999 / 2000000000, 1 / 16000000000] ]"
    by (simp add: posterior_table_def demo_engine2_space demo_engine2_labels(1) lb lv4 Let_def
        numeral_2_eq_2)
  have sm: "sum_list (concat (posterior_table demo_engine2 (- 1) [7, 0, 0, 0]))
            = 7999999993 / 16000000000"
    unfolding pt by simp
  from t0 have n0: "distribution (paramSpace (update demo_engine2 (- 1) [7, 0, 0, 0])) ! 0 ! 0
               = posterior_table demo_engine2 (- 1) [7, 0, 0, 0] ! 0 ! 0
                 / sum_list (concat (posterior_table demo_engine2 (- 1) [7, 0, 0, 0]))"
    by blast
  from t1 have n1: "distribution (paramSpace (update demo_engine2 (- 1) [7, 0, 0, 0])) ! 0 ! 1
               = posterior_table demo_engine2 (- 1) [7, 0, 0, 0] ! 0 ! 1
                 / sum_list (concat (posterior_table demo_engine2 (- 1) [7, 0, 0, 0]))"
    by blast
  have lin0: "distribution (paramSpace (update demo_engine2 (- 1) [7, 0, 0, 0])) ! 0 ! 0
              = 7999999992 / 7999999993"
    unfolding n0 sm unfolding pt by simp
  have lin1: "distribution (paramSpace (update demo_engine2 (- 1) [7, 0, 0, 0])) ! 0 ! 1
              = 1 / 7999999993"
    unfolding n1 sm unfolding pt by simp
  have pr: "map (\<lambda>p. exp (snd p)) (logPosterior (paramSpace3 demo_engine3b)) = [1 / 2, 1 / 2]"
    by (simp add: demo_engine3b_keys)
  from t2 obtain e3' where u: "update3 double_cosDeg CONFIG3 demo_engine3b [7, 0, 0] 1 = Some e3'"
    and ex0: "exp (snd (logPosterior (paramSpace3 e3') ! 0))
        = exp (snd (logPosterior (paramSpace3 demo_engine3b) ! 0))
          * (if computeTrueEmotion3 double_cosDeg CONFIG3 [7, 0, 0]
                  (fst (fst (logPosterior (paramSpace3 demo_engine3b) ! 0)))
                  (snd (fst (logPosterior (paramSpace3 demo_engine3b) ! 0))) = Some 1
             then cfg_LIKELIHOOD_MATCH CONFIG3 else cfg_LIKELIHOOD_MISMATCH CONFIG3)
          / sum_list (map (\<lambda>q. exp (snd q)
               * (if computeTrueEmotion3 double_cosDeg CONFIG3 [7, 0, 0] (fst (fst q)) (snd (fst q)) = Some 1
                  then cfg_LIKELIHOOD_MATCH CONFIG3 else cfg_LIKELIHOOD_MISMATCH CONFIG3))
             (logPosterior (paramSpace3 demo_engine3b)))"
    by blast
  from t3 u have ex1: "exp (snd (logPosterior (paramSpace3 e3') ! 1))
        = exp (snd (logPosterior (paramSpace3 demo_engine3b) ! 1))
          * (if computeTrueEmotion3 double_cosDeg CONFIG3 [7, 0, 0]
                  (fst (fst (logPosterior (paramSpace3 demo_engine3b) ! 1)))
                  (snd (fst (logPosterior (paramSpace3 demo_engine3b) ! 1))) = Some 1
             then cfg_LIKELIHOOD_MATCH CONFIG3 else cfg_LIKELIHOOD_MISMATCH CONFIG3)
          / sum_list (map (\<lambda>q. exp (snd q)
               * (if computeTrueEmotion3 double_cosDeg CONFIG3 [7, 0, 0] (fst (fst q)) (snd (fst q)) = Some 1
                  then cfg_LIKELIHOOD_MATCH CONFIG3 else cfg_LIKELIHOOD_MISMATCH CONFIG3))
             (logPosterior (paramSpace3 demo_engine3b)))"
    by auto
  have lg0: "exp (snd (logPosterior (paramSpace3 e3') ! 0)) = 7999999992 / 7999999993"
    unfolding ex0 by (simp add: demo_engine3b_keys demo_engine3b_labels lv)
  have lg1: "exp (snd (logPosterior (paramSpace3 e3') ! 1)) = 1 / 7999999993"
    unfolding ex1 by (simp add: demo_engine3b_keys demo_engine3b_labels lv)
  from demo_engine2_labels demo_engine2_space(3) lin0 lin1 demo_engine3b_labels pr u lg0 lg1
  show ?thesis by blast
qed

text \<open>
  Claim C2. After \<open>update\<close> on a non-empty grid the stored joint posterior sums to 1 (so
  it is within \<open>1e-9\<close> of 1); when the sum before normalisation is \<open>\<le> 0\<close>, every entry is the
  uniform value \<open>1 / (Nt * Nw)\<close>. In the log domain \<open>update\<close> returns a posterior whose
  exponentials sum to 1, and the normalisation subtracts \<open>logsumexp\<close> of all entries, the
  logarithm of the sum of their exponentials, from every entry.
\<close>

theorem posterior_sums_to_one:
  assumes "0 < Nt (paramSpace e)" and "0 < Nw (paramSpace e)"
    and "logPosterior (paramSpace3 e3) \<noteq> []"
    and "priv_computeScale cfg = Some s" and "s \<noteq> 0"
  shows "sum_list (concat (distribution (paramSpace (update e obs x)))) = 1
         \<and> \<bar>sum_list (concat (distribution (paramSpace (update e obs x)))) - 1\<bar> \<le> 1 / 10 ^ 9
         \<and> (sum_list (concat (posterior_table e obs x)) \<le> 0 \<longrightarrow>
              (\<forall>ti<Nt (paramSpace e). \<forall>wi<Nw (paramSpace e).
                 distribution (paramSpace (update e obs x)) ! ti ! wi
                 = 1 / real (Nt (paramSpace e) * Nw (paramSpace e))))
         \<and> (\<exists>e3'. update3 cosDeg cfg e3 offer obs = Some e3'
               \<and> sum_list (map (\<lambda>p. exp (snd p)) (logPosterior (paramSpace3 e3'))) = 1)
         \<and> logsumexp (map snd (logPosterior (paramSpace3 e3)))
             = Finite (ln (sum_list (map (\<lambda>p. exp (snd p)) (logPosterior (paramSpace3 e3)))))
         \<and> logPosterior (priv_normalizeLogPosterior (paramSpace3 e3))
             = map (\<lambda>p. (fst p, snd p
                     - ln (sum_list (map (\<lambda>p. exp (snd p)) (logPosterior (paramSpace3 e3))))))
                 (logPosterior (paramSpace3 e3))"
proof -
  have one: "sum_list (concat (distribution (paramSpace (update e obs x)))) = 1"
    by (rule update_sum_one [OF assms(1,2)])
  have fb: "sum_list (concat (posterior_table e obs x)) \<le> 0 \<longrightarrow>
              (\<forall>ti<Nt (paramSpace e). \<forall>wi<Nw (paramSpace e).
                 distribution (paramSpace (update e obs x)) ! ti ! wi
                 = 1 / real (Nt (paramSpace e) * Nw (paramSpace e)))"
    using update_fallback_uniform [of e obs x] by blast
  have lg: "\<exists>e3'. update3 cosDeg cfg e3 offer obs = Some e3'
               \<and> sum_list (map (\<lambda>p. exp (snd p)) (logPosterior (paramSpace3 e3'))) = 1"
    by (rule update3_sum_one [OF assms(4,5,3)])
  have ne: "map snd (logPosterior (paramSpace3 e3)) \<noteq> []" using assms(3) by simp
  have "map exp (map snd (logPosterior (paramSpace3 e3)))
        = map (\<lambda>p. exp (snd p)) (logPosterior (paramSpace3 e3))"
    by simp
  then have lse: "logsumexp (map snd (logPosterior (paramSpace3 e3)))
             = Finite (ln (sum_list (map (\<lambda>p. exp (snd p)) (logPosterior (paramSpace3 e3)))))"
    using logsumexp_Finite [OF ne] by (simp only:)
  note sub = normalizeLogPosterior_entries [OF assms(3)]
  from one fb lg lse sub show ?thesis by simp
qed

theorem posterior_sums_to_one_witness:
  "sum_list (concat (distribution (paramSpace (update demo_engine 7 [0, 0, 0, 0])))) = 1
   \<and> sum_list (concat (posterior_table demo_engine_zero 7 [0, 0, 0, 0])) \<le> 0
   \<and> distribution (paramSpace (update demo_engine_zero 7 [0, 0, 0, 0])) ! 0 ! 0 = 1
   \<and> (\<exists>e3'. update3 double_cosDeg CONFIG3 demo_engine3 [7, 0, 0] 7 = Some e3'
         \<and> sum_list (map (\<lambda>p. exp (snd p)) (logPosterior (paramSpace3 e3'))) = 1)
   \<and> logPosterior (priv_normalizeLogPosterior (paramSpace3 demo_engine3)) = [((0, [1, 1, 1]), 0)]"
proof -
  have s: "(144 / 7 :: real) \<noteq> 0" by simp
  have ne: "logPosterior (paramSpace3 demo_engine3) \<noteq> []" by (simp add: demo_engine3_keys)
  have i: "(0::nat) < Nt (paramSpace demo_engine)" "(0::nat) < Nw (paramSpace demo_engine)"
    by (simp_all add: demo_engine_space)
  have iz: "(0::nat) < Nt (paramSpace demo_engine_zero)" "(0::nat) < Nw (paramSpace demo_engine_zero)"
    by (simp_all add: demo_engine_zero_space)
  note t1 = posterior_sums_to_one [OF i ne CONFIG3_scale s,
      where obs = 7 and x = "[0, 0, 0, 0]" and offer = "[7, 0, 0]" and cosDeg = double_cosDeg]
  note t2 = posterior_sums_to_one [OF iz ne CONFIG3_scale s,
      where obs = 7 and x = "[0, 0, 0, 0]" and offer = "[7, 0, 0]" and cosDeg = double_cosDeg]
  have z: "sum_list (concat (posterior_table demo_engine_zero 7 [0, 0, 0, 0])) \<le> 0"
    by (simp add: posterior_table_def demo_engine_zero_space Let_def)
  have u: "distribution (paramSpace (update demo_engine_zero 7 [0, 0, 0, 0])) ! 0 ! 0 = 1"
    using t2 z by (simp add: demo_engine_zero_space)
  have n: "logPosterior (priv_normalizeLogPosterior (paramSpace3 demo_engine3)) = [((0, [1, 1, 1]), 0)]"
    using t1 by (simp add: demo_engine3_keys)
  from t1 z u n show ?thesis by blast
qed

section \<open>The hypotheses on the posterior are invariants\<close>

text \<open>
  The uniform prior of a non-empty grid is a probability table, and \<open>update\<close> keeps the
  stored table one; so the hypothesis of the Bayes-rule theorem holds in every state the
  four-issue engine reaches.
\<close>

lemma sum_list_concat_replicate:
  "sum_list (concat (replicate n xs)) = real n * sum_list xs" for xs :: "real list"
  by (induction n) (simp_all add: algebra_simps)

lemma is_distribution_uniform:
  assumes "thetas \<noteq> []" "ws \<noteq> []"
  shows "is_distribution (Nt (new_ParameterSpace thetas ws)) (Nw (new_ParameterSpace thetas ws))
           (distribution (new_ParameterSpace thetas ws))"
proof -
  have "real (length thetas) * (real (length ws) * (1 / (real (length thetas) * real (length ws)))) = 1"
    using assms by simp
  then show ?thesis
    by (simp add: is_distribution_def new_ParameterSpace_def Let_def sum_list_concat_replicate
          sum_list_replicate)
qed

lemma is_distribution_nonempty:
  assumes "is_distribution nt nw d"
  shows "0 < nt" "0 < nw"
proof -
  have "sum_list (concat d) = 1" using assms by (simp add: is_distribution_def)
  then have c: "concat d \<noteq> []" by (cases "concat d") simp_all
  then have "d \<noteq> []" by auto
  then show "0 < nt" using assms by (auto simp add: is_distribution_def)
  from c obtain row where "row \<in> set d" "row \<noteq> []" by auto
  then show "0 < nw" using assms by (auto simp add: is_distribution_def)
qed

lemma is_distribution_update:
  assumes "is_distribution (Nt (paramSpace e)) (Nw (paramSpace e)) (distribution (paramSpace e))"
  shows "is_distribution (Nt (paramSpace (update e obs x))) (Nw (paramSpace (update e obs x)))
           (distribution (paramSpace (update e obs x)))"
proof -
  let ?nt = "Nt (paramSpace e)" and ?nw = "Nw (paramSpace e)"
  let ?pt = "posterior_table e obs x"
  let ?Z = "sum_list (concat ?pt)"
  have Z: "0 < ?Z"
    using posterior_table_sum_pos [OF assms, of obs x] likelihood_bounds(1) by linarith
  have n: "Nt (paramSpace (update e obs x)) = ?nt" "Nw (paramSpace (update e obs x)) = ?nw"
    by (simp_all add: update_def Let_def)
  have d: "distribution (paramSpace (update e obs x)) = map (map (\<lambda>v. v / ?Z)) ?pt"
    by (simp add: update_distribution normalize2D_pos [OF Z])
  have rows: "length row = ?nw \<and> (\<forall>p\<in>set row. 0 \<le> p)" if "row \<in> set ?pt" for row
  proof -
    from that obtain ti where ti: "ti < ?nt"
      and row: "row = map (\<lambda>wi. distribution (paramSpace e) ! ti ! wi
          * (if predictEmotion e ti wi x = obs then LIKELIHOOD_MATCH else LIKELIHOOD_MISMATCH))
          [0..<?nw]"
      by (auto simp add: posterior_table_def Let_def)
    have "0 \<le> distribution (paramSpace e) ! ti ! wi
          * (if predictEmotion e ti wi x = obs then LIKELIHOOD_MATCH else LIKELIHOOD_MISMATCH)"
      if "wi < ?nw" for wi
    proof (rule mult_nonneg_nonneg)
      show "0 \<le> distribution (paramSpace e) ! ti ! wi"
        by (rule is_distribution_nth [OF assms ti that])
      show "0 \<le> (if predictEmotion e ti wi x = obs then LIKELIHOOD_MATCH else LIKELIHOOD_MISMATCH)"
        using likelihood_bounds by simp
    qed
    then show ?thesis unfolding row by auto
  qed
  have "0 < ?nt" "0 < ?nw" using is_distribution_nonempty [OF assms] by simp_all
  then have one: "sum_list (concat (distribution (paramSpace (update e obs x)))) = 1"
    by (rule update_sum_one)
  have "\<forall>row\<in>set (map (map (\<lambda>v. v / ?Z)) ?pt). length row = ?nw \<and> (\<forall>p\<in>set row. 0 \<le> p)"
    using rows Z by (auto simp add: divide_nonneg_pos less_imp_le)
  then show ?thesis
    unfolding n using one d by (simp add: is_distribution_def)
qed

section \<open>The grid generators\<close>

lemma loop_count_step:
  assumes "0 < step" "v \<le> bound"
  shows "loop_count v bound step = Suc (loop_count (v + step) bound step)"
proof (cases "v + step \<le> bound")
  case True
  have "(bound - (v + step)) / step = (bound - v) / step - 1"
    using assms(1) by (simp add: field_simps)
  then have f: "\<lfloor>(bound - (v + step)) / step\<rfloor> = \<lfloor>(bound - v) / step\<rfloor> - 1"
    by simp
  define z where "z = \<lfloor>(bound - v) / step\<rfloor>"
  have "1 \<le> (bound - v) / step" using True assms(1) by (simp add: field_simps)
  then have "1 \<le> z" unfolding z_def by (simp add: le_floor_iff)
  then have "nat z = Suc (nat (z - 1))" by arith
  then show ?thesis using True assms(2) f unfolding z_def [symmetric]
    by (simp add: loop_count_def z_def [symmetric])
next
  case False
  then have "(bound - v) / step < 1" using assms(1) by (simp add: field_simps)
  moreover have "0 \<le> (bound - v) / step" using assms by simp
  ultimately have "\<lfloor>(bound - v) / step\<rfloor> = 0" by (simp add: floor_eq_iff)
  then show ?thesis using False assms(2) by (simp add: loop_count_def)
qed

lemma push_loop_count:
  assumes "0 < step"
  shows "loop_count v bound step = n \<Longrightarrow>
         push_loop f v bound step arr = Some (arr @ map (\<lambda>k. f (v + real k * step)) [0..<n])"
proof (induction n arbitrary: v arr)
  case 0
  then have "\<not> v \<le> bound" by (simp add: loop_count_def split: if_splits)
  then show ?case by (subst push_loop.simps) simp
next
  case (Suc n)
  then have le: "v \<le> bound" by (simp add: loop_count_def split: if_splits)
  with Suc.prems loop_count_step [OF assms le] have "loop_count (v + step) bound step = n"
    by simp
  from Suc.IH [OF this, of "arr @ [f v]"]
  have "push_loop f (v + step) bound step (arr @ [f v])
        = Some ((arr @ [f v]) @ map (\<lambda>k. f (v + step + real k * step)) [0..<n])" .
  moreover have "map (\<lambda>k. f (v + real k * step)) [0..<Suc n]
        = f v # map (\<lambda>k. f (v + step + real k * step)) [0..<n]"
  proof -
    have "[0..<Suc n] = 0 # map Suc [0..<n]"
      by (simp add: upt_conv_Cons map_Suc_upt del: upt_Suc)
    then show ?thesis by (simp add: comp_def algebra_simps del: upt_Suc)
  qed
  ultimately show ?case using le by (subst push_loop.simps) simp
qed

lemma push_loop_closed:
  assumes "0 < step"
  shows "push_loop f v bound step []
         = Some (map (\<lambda>k. f (v + real k * step)) [0..<loop_count v bound step])"
  using push_loop_count [OF assms refl, of f v bound "[]"] by simp

lemma js_round_of_int [simp]: "js_round (real_of_int z) = real_of_int z"
proof -
  have "\<lfloor>real_of_int z + 1 / 2\<rfloor> = z" by linarith
  then show ?thesis by (simp add: js_round_def)
qed

lemma range_default:
  "range_arr (- 90) 90 5 = Some (map (\<lambda>k. 5 * real k - 90) [0..<37])"
proof -
  have c: "loop_count (- 90) (90 + 1 / 10 ^ 9) 5 = 37"
    by (simp add: loop_count_def)
  have "js_round ((- 90 + real k * 5) * 1000) / 1000 = 5 * real k - 90" for k
  proof -
    have "(- 90 + real k * 5) * 1000 = real_of_int (5000 * int k - 90000)" by simp
    then have "js_round ((- 90 + real k * 5) * 1000) = real_of_int (5000 * int k - 90000)"
      by (simp only: js_round_of_int)
    then show ?thesis by simp
  qed
  then show ?thesis
    using c by (simp add: range_arr_def push_loop_closed)
qed

section \<open>A grid loop with a non-positive step\<close>

text \<open>
  With \<open>step \<le> 0\<close> the loop variable never passes a bound it starts below: the loop does
  not return, which the model records as \<open>None\<close>.
\<close>

lemma push_loop_returns_only_above:
  assumes "push_loop f v bound step arr = Some y"
  shows "step \<le> 0 \<longrightarrow> bound < v"
proof (rule push_loop.raw_induct
    [where P = "\<lambda>f v bound step arr y. step \<le> 0 \<longrightarrow> bound < v", OF _ assms])
  fix loop :: "(real \<Rightarrow> real) \<Rightarrow> real \<Rightarrow> real \<Rightarrow> real \<Rightarrow> real list \<Rightarrow> real list option"
    and g v' bound' step' arr' r
  assume IH: "\<And>h v bound step arr y. loop h v bound step arr = Some y \<Longrightarrow> step \<le> 0 \<longrightarrow> bound < v"
    and eq: "(if v' \<le> bound' then loop g (v' + step') bound' step' (arr' @ [g v']) else Some arr')
             = Some r"
  show "step' \<le> 0 \<longrightarrow> bound' < v'"
  proof (cases "v' \<le> bound'")
    case True
    with eq have "loop g (v' + step') bound' step' (arr' @ [g v']) = Some r" by simp
    from IH [OF this] have "step' \<le> 0 \<longrightarrow> bound' < v' + step'" .
    with True show ?thesis by linarith
  next
    case False
    then show ?thesis by simp
  qed
qed

lemma push_loop_diverges:
  assumes "step \<le> 0" "v \<le> bound"
  shows "push_loop f v bound step arr = None"
proof (cases "push_loop f v bound step arr")
  case None
  then show ?thesis .
next
  case (Some y)
  from push_loop_returns_only_above [OF Some] assms show ?thesis by simp
qed

lemma generateThetaGrid_diverges:
  assumes "step \<le> 0" "mn \<le> mx"
  shows "generateThetaGrid mn mx step = None" "range_arr mn mx step = None"
  using assms by (simp_all add: generateThetaGrid_def range_arr_def push_loop_diverges)

section \<open>Endpoints of the angle grid\<close>

lemma theta_default:
  "generateThetaGrid (- 90) 90 5 = Some (map (\<lambda>k. degToRad (5 * real k - 90)) [0..<37])"
proof -
  have c: "loop_count (- 90) (90 + 1 / 10 ^ 3) 5 = 37"
    by (simp add: loop_count_def)
  have "- 90 + real k * 5 = 5 * real k - 90" for k by simp
  then show ?thesis
    using c by (simp add: generateThetaGrid_def push_loop_closed mult.commute)
qed








section \<open>The fixed-scale label\<close>

lemma range_w_default: "range_arr (- 4) 4 1 = Some [- 4, - 3, - 2, - 1, 0, 1, 2, 3, 4]"
proof -
  have u9: "[0..<9] = [0, 1, 2, 3, 4, 5, 6, 7, 8 :: nat]" by code_simp
  have "loop_count (- 4) (4 + 1 / 10 ^ 9) 1 = 9" by (simp add: loop_count_def)
  then show ?thesis
    by (simp add: range_arr_def push_loop_closed js_round_def u9)
qed

lemma new_ParameterSpace3_default:
  "\<exists>ps. new_ParameterSpace3 (setWSelf CONFIG3 ws) = Some ps
     \<and> wComponentValues ps = [- 4, - 3, - 2, - 1, 0, 1, 2, 3, 4]"
  by (simp add: new_ParameterSpace3_def setWSelf_def CONFIG3_def range_default range_w_default
        priv_initUniformPrior_def Let_def)

lemma Max_abs_w_default: "Max (abs ` set [- 4, - 3, - 2, - 1, 0, 1, 2, 3, 4 :: real]) = 4"
  by simp

lemma computeScale_default:
  assumes "ws \<noteq> []"
  shows "priv_computeScale (setWSelf CONFIG3 ws) = Some ((4 + Max (abs ` set ws)) * 18 / 7)"
proof -
  have "js_max (map abs ws) = Finite (Max (abs ` set ws))"
    using js_max_Finite [of "map abs ws"] assms by simp
  then show ?thesis
    by (simp add: priv_computeScale_def setWSelf_def CONFIG3_def sum_arr_def Let_def)
qed

lemma Max_abs_nonneg:
  fixes ws :: "real list"
  assumes "ws \<noteq> []"
  shows "0 \<le> Max (abs ` set ws)"
proof -
  have "\<bar>hd ws\<bar> \<in> abs ` set ws" using assms by simp
  then have "\<bar>hd ws\<bar> \<le> Max (abs ` set ws)" by simp
  then show ?thesis by linarith
qed

lemma sum_lessThan_3: "(\<Sum>i<3. f i) = f 0 + f 1 + f (2::nat)"
  for f :: "nat \<Rightarrow> real"
  by (simp add: eval_nat_numeral lessThan_Suc)

lemma dot_subtract_sum:
  assumes "length wOther = n" "length Qv = n"
  shows "dot (subtractArrays Qv x) wOther = (\<Sum>i<n. wOther ! i * (Qv ! i - x ! i))"
proof -
  have "dot (subtractArrays Qv x) wOther
        = (\<Sum>i<length Qv. subtractArrays Qv x ! i * wOther ! i)"
    using assms by (simp add: dot_sum)
  also have "\<dots> = (\<Sum>i<length Qv. wOther ! i * (Qv ! i - x ! i))"
    by (rule sum.cong) (simp_all add: mult.commute)
  finally show ?thesis using assms(2) by simp
qed

lemma dot_commute_sum:
  assumes "length ws = n" "length offer = n"
  shows "dot offer ws = (\<Sum>i<n. ws ! i * offer ! i)"
  using assms by (simp add: dot_sum mult.commute)

text \<open>
  What \<open>computeTrueEmotion\<close> computes under the program's configuration with any proposer
  weights of dimension three: \<open>clip(floor(combined / scale), -1, 7)\<close> with the scale of the
  specification, and with the platform cosine in the combined utility.
\<close>

lemma computeTrueEmotion3_default:
  assumes "cfg = setWSelf CONFIG3 ws" and "length ws = 3"
    and "length offer = 3" and "length wOther = 3"
  shows "\<exists>ps. new_ParameterSpace3 cfg = Some ps
           \<and> computeTrueEmotion3 cosDeg cfg offer theta wOther
             = Some (max (- 1) (min 7
                 \<lfloor>((\<Sum>i<3. ws ! i * offer ! i)
                    + cosDeg theta * (\<Sum>i<3. wOther ! i * (cfg_Q cfg ! i - offer ! i)))
                  / spec_scale (wComponentValues ps) ws (cfg_Q cfg) 7\<rfloor>))"
proof -
  obtain ps where ps: "new_ParameterSpace3 cfg = Some ps"
    and wv: "wComponentValues ps = [- 4, - 3, - 2, - 1, 0, 1, 2, 3, 4]"
    using new_ParameterSpace3_default [of ws] assms(1) by blast
  have ne: "ws \<noteq> []" using assms(2) by auto
  have q: "cfg_Q cfg = [7, 5, 6]" "cfg_W_SELF cfg = ws" "cfg_EMOTION_RANGE_MAX cfg = 7"
    by (simp_all add: assms(1) setWSelf_def CONFIG3_def)
  let ?s = "(4 + Max (abs ` set ws)) * 18 / 7"
  have s: "priv_computeScale cfg = Some ?s"
    unfolding assms(1) by (rule computeScale_default [OF ne])
  have s0: "?s \<noteq> 0" using Max_abs_nonneg [OF ne] by simp
  have sc: "spec_scale (wComponentValues ps) ws (cfg_Q cfg) 7 = ?s"
    unfolding wv q spec_scale_def Max_abs_w_default by simp
  have d1: "dot offer ws = (\<Sum>i<3. ws ! i * offer ! i)"
    by (rule dot_commute_sum) (simp_all add: assms)
  have d2: "dot (subtractArrays [7, 5, 6] offer) wOther
            = (\<Sum>i<3. wOther ! i * ([7, 5, 6] ! i - offer ! i))"
    by (rule dot_subtract_sum) (simp_all add: assms)
  have "computeTrueEmotion3 cosDeg cfg offer theta wOther
        = Some (max (- 1) (min 7
            \<lfloor>((\<Sum>i<3. ws ! i * offer ! i)
               + cosDeg theta * (\<Sum>i<3. wOther ! i * (cfg_Q cfg ! i - offer ! i))) / ?s\<rfloor>))"
    unfolding computeTrueEmotion3_Some [OF s s0, of cosDeg offer theta wOther] q d1 d2 ..
  then have "computeTrueEmotion3 cosDeg cfg offer theta wOther
        = Some (max (- 1) (min 7
            \<lfloor>((\<Sum>i<3. ws ! i * offer ! i)
               + cosDeg theta * (\<Sum>i<3. wOther ! i * (cfg_Q cfg ! i - offer ! i)))
             / spec_scale (wComponentValues ps) ws (cfg_Q cfg) 7\<rfloor>))"
    unfolding sc .
  with ps show ?thesis by blast
qed

text \<open>
  At an angle where the platform cosine is the exact cosine, this is the label of the
  specification's formula.
\<close>

lemma computeTrueEmotion3_exact_cosine:
  assumes "cfg = setWSelf CONFIG3 ws" and "length ws = 3"
    and "length offer = 3" and "length wOther = 3"
    and "cosDeg theta = cos (degToRad theta)"
  shows "\<exists>ps. new_ParameterSpace3 cfg = Some ps
           \<and> computeTrueEmotion3 cosDeg cfg offer theta wOther
             = Some (max (- 1) (min 7
                 \<lfloor>spec_combined (cfg_Q cfg) ws offer wOther theta
                  / spec_scale (wComponentValues ps) ws (cfg_Q cfg) 7\<rfloor>))"
proof -
  have q: "length (cfg_Q cfg) = 3" by (simp add: assms(1) setWSelf_def CONFIG3_def)
  show ?thesis
    using computeTrueEmotion3_default [OF assms(1-4), of cosDeg theta]
    unfolding spec_combined_def q assms(5) .
qed

text \<open>
  Claim C7 fails in the program at the angle of 90 degrees. Take the default
  configuration, the offer \<open>[0, 0, 0]\<close> and the grid hypothesis \<open>theta = 90\<close>,
  \<open>w = [-4, -4, -4]\<close>. The formula of the claim has \<open>cos(90 degrees) = 0\<close>, so
  \<open>combined = 0\<close> and the label is \<open>clip(floor(0 / scale), -1, 7) = 0\<close>. In the program
  \<open>Math.cos(degToRad(90))\<close> is a small positive number, \<open>combined\<close> is that number times
  \<open>-72\<close>, a negative number above \<open>-scale\<close>, and \<open>computeTrueEmotion\<close> returns \<open>-1\<close>. This
  holds for every platform cosine that is positive and below \<open>1/4\<close> at 90 degrees.
\<close>

theorem fixed_scale_label_fails_at_90:
  assumes "0 < cosDeg 90" and "cosDeg 90 < 1 / 4"
  shows "computeTrueEmotion3 cosDeg CONFIG3 [0, 0, 0] 90 [- 4, - 4, - 4] = Some (- 1)
         \<and> spec_combined (cfg_Q CONFIG3) (cfg_W_SELF CONFIG3) [0, 0, 0] [- 4, - 4, - 4] 90 = 0
         \<and> spec_scale [- 4, - 3, - 2, - 1, 0, 1, 2, 3, 4] (cfg_W_SELF CONFIG3) (cfg_Q CONFIG3) 7
             = 144 / 7
         \<and> max (- 1) (min 7
              \<lfloor>spec_combined (cfg_Q CONFIG3) (cfg_W_SELF CONFIG3) [0, 0, 0] [- 4, - 4, - 4] 90
               / spec_scale [- 4, - 3, - 2, - 1, 0, 1, 2, 3, 4] (cfg_W_SELF CONFIG3)
                   (cfg_Q CONFIG3) 7\<rfloor>) = (0::int)"
proof -
  define c where "c = cosDeg 90"
  have c: "0 < c" "c < 1 / 4" using assms by (simp_all add: c_def)
  have s: "(144 / 7 :: real) \<noteq> 0" by simp
  have v: "(dot [0, 0, 0] (cfg_W_SELF CONFIG3)
            + cosDeg 90 * dot (subtractArrays (cfg_Q CONFIG3) [0, 0, 0]) [- 4, - 4, - 4]) / (144 / 7)
           = - (7 * c / 2)"
    by (simp add: dot_def subtractArrays_def CONFIG3_def c_def)
  have f: "\<lfloor>- (7 * c / 2)\<rfloor> = - 1"
  proof (rule floor_unique)
    show "real_of_int (- 1) \<le> - (7 * c / 2)" using c(2) by simp
    show "- (7 * c / 2) < real_of_int (- 1) + 1" using c(1) by simp
  qed
  have e: "cfg_EMOTION_RANGE_MAX CONFIG3 = 7" by (simp add: CONFIG3_def)
  have code: "computeTrueEmotion3 cosDeg CONFIG3 [0, 0, 0] 90 [- 4, - 4, - 4] = Some (- 1)"
    unfolding computeTrueEmotion3_Some [OF CONFIG3_scale s] v f e by simp
  have h: "cos (degToRad 90) = 0" by (simp add: degToRad_def)
  have cb: "spec_combined (cfg_Q CONFIG3) (cfg_W_SELF CONFIG3) [0, 0, 0] [- 4, - 4, - 4] 90 = 0"
    unfolding spec_combined_def h by (simp add: CONFIG3_def)
  have sc: "spec_scale [- 4, - 3, - 2, - 1, 0, 1, 2, 3, 4] (cfg_W_SELF CONFIG3) (cfg_Q CONFIG3) 7
            = 144 / 7"
    by (simp add: spec_scale_def CONFIG3_def)
  have lab: "max (- 1) (min 7
              \<lfloor>spec_combined (cfg_Q CONFIG3) (cfg_W_SELF CONFIG3) [0, 0, 0] [- 4, - 4, - 4] 90
               / spec_scale [- 4, - 3, - 2, - 1, 0, 1, 2, 3, 4] (cfg_W_SELF CONFIG3)
                   (cfg_Q CONFIG3) 7\<rfloor>) = (0::int)"
    unfolding cb by simp
  from code cb sc lab show ?thesis by blast
qed

theorem fixed_scale_label_fails_at_90_witness:
  "double_cosDeg 90 = 6123233995736766 / 10 ^ 32
   \<and> 0 < double_cosDeg 90 \<and> double_cosDeg 90 < 1 / 4
   \<and> computeTrueEmotion3 double_cosDeg CONFIG3 [0, 0, 0] 90 [- 4, - 4, - 4] = Some (- 1)"
proof -
  have v: "double_cosDeg 90 = 6123233995736766 / 10 ^ 32" by (simp add: double_cosDeg_def)
  have h: "0 < double_cosDeg 90" "double_cosDeg 90 < 1 / 4" unfolding v by simp_all
  from fixed_scale_label_fails_at_90 [of double_cosDeg, OF h] v h show ?thesis by blast
qed

section \<open>The keys of the log posterior\<close>

text \<open>
  In the log domain: the keys of the initial prior are the grid keys in grid order, the grid
  keys of the default configuration are distinct, and \<open>update\<close> changes neither; so the
  hypotheses of the Bayes-rule theorem on the three-issue engine hold in every state it
  reaches.
\<close>

lemma update_fresh:
  "k \<notin> fst ` set lp \<Longrightarrow> AList.update k v lp = lp @ [(k, v)]"
  by (induction lp) auto

lemma fold_update_fresh:
  assumes "distinct ks" "set ks \<inter> fst ` set lp = {}"
  shows "foldl (\<lambda>lp k. AList.update k v lp) lp ks = lp @ map (\<lambda>k. (k, v)) ks"
  using assms
proof (induction ks arbitrary: lp)
  case Nil
  then show ?case by simp
next
  case (Cons k ks)
  have k: "k \<notin> fst ` set lp" using Cons.prems(2) by auto
  have "set ks \<inter> fst ` set (lp @ [(k, v)]) = {}" using Cons.prems by auto
  with Cons.IH [of "lp @ [(k, v)]"] Cons.prems(1)
  have "foldl (\<lambda>lp k. AList.update k v lp) (lp @ [(k, v)]) ks
        = (lp @ [(k, v)]) @ map (\<lambda>k. (k, v)) ks"
    by simp
  then show ?case by (simp add: update_fresh [OF k])
qed

lemma initUniformPrior_keys:
  assumes "distinct (grid_keys ps)" "logPosterior ps = []"
  shows "map fst (logPosterior (priv_initUniformPrior ps)) = grid_keys ps"
    and "grid_keys (priv_initUniformPrior ps) = grid_keys ps"
proof -
  have "grid_keys (ps\<lparr>logPosterior := lp\<rparr>) = grid_keys ps" for lp
    by (simp add: grid_keys_def)
  then show "grid_keys (priv_initUniformPrior ps) = grid_keys ps"
    by (simp add: priv_initUniformPrior_def Let_def)
  define v where "v = - ln (real (length (thetaValues3 ps) * length (wCombinations ps)))"
  have "logPosterior (priv_initUniformPrior ps)
        = foldl (\<lambda>lp k. AList.update k v lp) [] (grid_keys ps)"
    unfolding v_def by (simp add: priv_initUniformPrior_def Let_def assms(2) del: of_nat_mult)
  also have "\<dots> = map (\<lambda>k. (k, v)) (grid_keys ps)"
    using fold_update_fresh [OF assms(1), of "[]" v] by simp
  finally show "map fst (logPosterior (priv_initUniformPrior ps)) = grid_keys ps"
    by (simp add: comp_def)
qed

lemma grid_keys_product:
  "grid_keys ps = List.product (thetaValues3 ps) (wCombinations ps)"
  by (simp add: grid_keys_def priv_key_def product_concat_map)

lemma distinct_grid_keys:
  assumes "distinct (thetaValues3 ps)" "distinct (wCombinations ps)"
  shows "distinct (grid_keys ps)"
  unfolding grid_keys_product using assms by (rule distinct_product)

lemma generateWCombinations_product:
  "priv_generateWCombinations vals
   = map (\<lambda>(a, b, c). [a, b, c]) (List.product vals (List.product vals vals))"
  by (simp add: priv_generateWCombinations_def product_concat_map map_concat comp_def)

lemma distinct_generateWCombinations:
  assumes "distinct vals"
  shows "distinct (priv_generateWCombinations vals)"
proof -
  have "inj (\<lambda>(a, b, c). [a, b, c :: real])" by (auto simp add: inj_on_def)
  then have "inj_on (\<lambda>(a, b, c). [a, b, c :: real])
               (set (List.product vals (List.product vals vals)))"
    by (rule inj_on_subset) simp
  then show ?thesis
    unfolding generateWCombinations_product
    using assms by (simp add: distinct_map distinct_product)
qed

lemma distinct_default_thetas: "distinct (map (\<lambda>k. 5 * real k - 90) [0..<37])"
  by (simp add: distinct_map inj_on_def del: upt_Suc)

lemma default_space3_invariant:
  "\<exists>ps. new_ParameterSpace3 (setWSelf CONFIG3 ws) = Some ps
     \<and> distinct (grid_keys ps)
     \<and> map fst (logPosterior ps) = grid_keys ps
     \<and> logPosterior ps \<noteq> []"
proof -
  let ?vals = "[- 4, - 3, - 2, - 1, 0, 1, 2, 3, 4 :: real]"
  let ?ps0 = "\<lparr> thetaValues3 = map (\<lambda>k. 5 * real k - 90) [0..<37], wComponentValues = ?vals,
                wCombinations = priv_generateWCombinations ?vals, logPosterior = [] \<rparr>"
  have n: "new_ParameterSpace3 (setWSelf CONFIG3 ws) = Some (priv_initUniformPrior ?ps0)"
    by (simp add: new_ParameterSpace3_def setWSelf_def CONFIG3_def range_default range_w_default
          del: upt_Suc)
  have dv: "distinct ?vals" by simp
  have d0: "distinct (grid_keys ?ps0)"
    by (rule distinct_grid_keys)
       (simp_all add: distinct_default_thetas distinct_generateWCombinations [OF dv] del: upt_Suc)
  have k: "map fst (logPosterior (priv_initUniformPrior ?ps0)) = grid_keys ?ps0"
    "grid_keys (priv_initUniformPrior ?ps0) = grid_keys ?ps0"
    by (rule initUniformPrior_keys [OF d0], simp)+
  have "(- 90, [- 4, - 4, - 4]) \<in> set (grid_keys ?ps0)"
    by (simp add: grid_keys_product generateWCombinations_product image_iff del: upt_Suc)
  then have "grid_keys ?ps0 \<noteq> []" by auto
  then have "logPosterior (priv_initUniformPrior ?ps0) \<noteq> []" using k(1) by (metis map_is_Nil_conv)
  with n d0 k show ?thesis by simp
qed

lemma update3_invariant:
  assumes "priv_computeScale cfg = Some s" "s \<noteq> 0"
    and "map fst (logPosterior (paramSpace3 e)) = grid_keys (paramSpace3 e)"
    and "distinct (grid_keys (paramSpace3 e))"
    and "logPosterior (paramSpace3 e) \<noteq> []"
    and "update3 cosDeg cfg e offer obs = Some e'"
  shows "map fst (logPosterior (paramSpace3 e')) = grid_keys (paramSpace3 e')
         \<and> distinct (grid_keys (paramSpace3 e')) \<and> logPosterior (paramSpace3 e') \<noteq> []"
proof -
  let ?ps1 = "(paramSpace3 e) \<lparr> logPosterior :=
      add_all (log_likelihood3 cosDeg cfg offer obs) (logPosterior (paramSpace3 e))
        (grid_keys (paramSpace3 e)) \<rparr>"
  have e': "e' = e \<lparr> paramSpace3 := priv_normalizeLogPosterior ?ps1 \<rparr>"
    using update3_Some [OF assms(1,2), of cosDeg e offer obs] assms(6) by simp
  have g: "grid_keys (priv_normalizeLogPosterior ?ps1) = grid_keys (paramSpace3 e)"
    by (simp add: grid_keys_def priv_normalizeLogPosterior_def Let_def split: maxval.splits)
  from update3_entries [OF assms(1-5), of cosDeg offer obs] assms(6)
  have lp: "logPosterior (paramSpace3 e')
      = map (\<lambda>p. (fst p, snd p + log_likelihood3 cosDeg cfg offer obs (fst p)
           - ln (sum_list (map (\<lambda>q. exp (snd q + log_likelihood3 cosDeg cfg offer obs (fst q)))
                            (logPosterior (paramSpace3 e))))))
          (logPosterior (paramSpace3 e))"
    by simp
  have "map fst (logPosterior (paramSpace3 e')) = map fst (logPosterior (paramSpace3 e))"
    unfolding lp by (simp add: comp_def)
  moreover have "grid_keys (paramSpace3 e') = grid_keys (paramSpace3 e)"
    using g by (simp add: e')
  moreover have "logPosterior (paramSpace3 e') \<noteq> []" unfolding lp using assms(5) by simp
  ultimately show ?thesis using assms(3,4) by simp
qed

section \<open>applyOffer and offers outside the box\<close>

lemma generateWGrid_default:
  "generateWGrid (- 4) 4 1 = Some (product4 [- 4, - 3, - 2, - 1, 0, 1, 2, 3, 4])"
proof -
  have u9: "[0..<9] = [0, 1, 2, 3, 4, 5, 6, 7, 8 :: nat]" by code_simp
  have "loop_count (- 4) (4 + 1 / 10 ^ 3) 1 = 9" by (simp add: loop_count_def)
  then show ?thesis
    by (simp add: generateWGrid_def push_loop_closed js_round_def u9)
qed

lemma new_NegotiationGame_Some:
  "new_NegotiationGame customWSelf pattern
   = Some (reset
       \<lparr> g_Q = CONFIG_Q,
         g_wSelf = (case customWSelf of None \<Rightarrow> CONFIG_W_SELF | Some ws \<Rightarrow> ws),
         g_candX = generateAllOffers CONFIG_Q,
         g_wGrid = product4 [- 4, - 3, - 2, - 1, 0, 1, 2, 3, 4],
         g_thetaGrid = map (\<lambda>k. degToRad (5 * real k - 90)) [0..<37],
         trueTheta = 0, trueThetaDeg = 0, trueW = [],
         engine = new_BayesianInferenceEngine (new_ParameterSpace [] []) [] [] [],
         round_no = 0,
         history = [] \<rparr> pattern)"
  unfolding new_NegotiationGame_def generateWGrid_default theta_default by simp

lemma reset_fields:
  "round_no (reset g pattern) = 0" "history (reset g pattern) = []"
  "g_Q (reset g pattern) = g_Q g"
  by (simp_all add: reset_def Let_def)

lemma initial_game_fields:
  "round_no initial_game = 0" "history initial_game = []" "g_Q initial_game = [7, 5, 5, 5]"
  by (simp_all add: initial_game_def new_NegotiationGame_Some reset_fields CONFIG_Q_def)

lemma applyOffer_state:
  "round_no (snd (applyOffer g x)) = round_no g + 1"
  "engine (snd (applyOffer g x))
     = update (engine g) (computeTrueEmotion (engine g) x (trueTheta g) (trueW g)) x"
  "r_emotion (fst (applyOffer g x)) = computeTrueEmotion (engine g) x (trueTheta g) (trueW g)"
  "r_round (fst (applyOffer g x)) = round_no g + 1"
  "length (history (snd (applyOffer g x))) = length (history g) + 1"
  "butlast (history (snd (applyOffer g x))) = history g"
  "h_offer (last (history (snd (applyOffer g x)))) = x"
  "h_emotion (last (history (snd (applyOffer g x))))
     = computeTrueEmotion (engine g) x (trueTheta g) (trueW g)"
  "h_round (last (history (snd (applyOffer g x)))) = round_no g + 1"
  by (simp_all add: applyOffer_def Let_def case_prod_unfold)

text \<open>
  Claim C9 as stated fails: on the game as constructed, the offer \<open>[8, 0, 0, 0]\<close> has a
  first component above \<open>Q_1 = 7\<close>, yet \<open>applyOffer\<close> returns a result for round 1, the
  round counter is 1 and the history has one entry, which holds this very offer.
\<close>

theorem applyOffer_invalid_offer_counterexample:
  "g_Q initial_game ! 0 < [8, 0, 0, 0] ! 0
   \<and> round_no initial_game = 0 \<and> history initial_game = []
   \<and> r_round (fst (applyOffer initial_game [8, 0, 0, 0])) = 1
   \<and> round_no (snd (applyOffer initial_game [8, 0, 0, 0])) = 1
   \<and> length (history (snd (applyOffer initial_game [8, 0, 0, 0]))) = 1
   \<and> h_offer (last (history (snd (applyOffer initial_game [8, 0, 0, 0])))) = [8, 0, 0, 0]"
  by (simp add: applyOffer_state initial_game_fields)

lemma computeTrueEmotion_range:
  "- 1 \<le> computeTrueEmotion e x theta w \<and> computeTrueEmotion e x theta w \<le> 7"
proof -
  have "- 1 \<le> priv_utilityToEmotion u m \<and> priv_utilityToEmotion u m \<le> 7" for u m
  proof (cases m)
    case NegInfinity
    then show ?thesis by simp
  next
    case (Finite r)
    define d where "d = u - (r - 7)"
    have v: "priv_utilityToEmotion u m
             = (if d < - (1 / 1000) then - 1 else if \<bar>d\<bar> \<le> 1 / 1000 then 0 else min 7 \<lceil>d\<rceil>)"
      by (simp add: Finite d_def EMOTION_RANGE_MAX_def Let_def)
    show ?thesis
    proof (cases "d < - (1 / 1000) \<or> \<bar>d\<bar> \<le> 1 / 1000")
      case True
      then show ?thesis unfolding v by auto
    next
      case False
      then have "0 < d" by linarith
      then have "0 \<le> \<lceil>d\<rceil>" by (simp add: less_imp_le)
      moreover have "priv_utilityToEmotion u m = min 7 \<lceil>d\<rceil>"
        using False unfolding v by simp
      ultimately show ?thesis by linarith
    qed
  qed
  then show ?thesis by (simp add: computeTrueEmotion_def Let_def)
qed

lemma applyOffer3_Some:
  assumes "priv_computeScale cfg = Some s" "s \<noteq> 0"
  shows "\<exists>emotion g'. applyOffer3 cosDeg cfg g offer = Some (emotion, g')
           \<and> computeTrueEmotion3 cosDeg cfg offer (trueTheta3 g) (trueW3 g) = Some emotion
           \<and> round3 g' = round3 g + 1 \<and> history3 g' = history3 g @ [(offer, emotion)]
           \<and> update3 cosDeg cfg (engine3 g) offer emotion = Some (engine3 g')"
proof -
  obtain emotion where e: "computeTrueEmotion3 cosDeg cfg offer (trueTheta3 g) (trueW3 g) = Some emotion"
    using computeTrueEmotion3_Some [OF assms] by blast
  obtain eng where u: "update3 cosDeg cfg (engine3 g) offer emotion = Some eng"
    using update3_Some [OF assms] by blast
  show ?thesis by (simp add: applyOffer3_def e u)
qed

text \<open>
  Claim C9, amended. \<open>applyOffer\<close> checks nothing and never fails: for every offer of the
  dimension of \<open>Q\<close>, inside the box or not, it returns a label between \<open>-1\<close> and \<open>7\<close>, raises
  the round counter by one, appends one history entry with the offer and the label, and
  replaces the posterior by the Bayes update for that label. The three-issue \<open>applyOffer\<close>
  does the same whenever the scale is a non-zero number.
\<close>

theorem applyOffer_processes_every_offer:
  assumes "length x = length (g_Q g)"
    and "length offer = length (cfg_Q cfg)"
    and "priv_computeScale cfg = Some s" and "s \<noteq> 0"
  shows "r_emotion (fst (applyOffer g x)) = computeTrueEmotion (engine g) x (trueTheta g) (trueW g)
         \<and> - 1 \<le> r_emotion (fst (applyOffer g x)) \<and> r_emotion (fst (applyOffer g x)) \<le> 7
         \<and> r_round (fst (applyOffer g x)) = round_no g + 1
         \<and> round_no (snd (applyOffer g x)) = round_no g + 1
         \<and> length (history (snd (applyOffer g x))) = length (history g) + 1
         \<and> butlast (history (snd (applyOffer g x))) = history g
         \<and> h_offer (last (history (snd (applyOffer g x)))) = x
         \<and> h_emotion (last (history (snd (applyOffer g x)))) = r_emotion (fst (applyOffer g x))
         \<and> engine (snd (applyOffer g x)) = update (engine g) (r_emotion (fst (applyOffer g x))) x
         \<and> (\<exists>emotion g3'. applyOffer3 cosDeg cfg g3 offer = Some (emotion, g3')
               \<and> computeTrueEmotion3 cosDeg cfg offer (trueTheta3 g3) (trueW3 g3) = Some emotion
               \<and> round3 g3' = round3 g3 + 1
               \<and> history3 g3' = history3 g3 @ [(offer, emotion)]
               \<and> update3 cosDeg cfg (engine3 g3) offer emotion = Some (engine3 g3'))"
  using computeTrueEmotion_range [of "engine g" x "trueTheta g" "trueW g"]
    applyOffer3_Some [OF assms(3,4), of cosDeg g3 offer]
  by (simp add: applyOffer_state)

theorem applyOffer_processes_every_offer_witness:
  "length [8, 0, 0, 0 :: real] = length (g_Q initial_game)
   \<and> length [8, 0, 0 :: real] = length (cfg_Q CONFIG3)
   \<and> priv_computeScale CONFIG3 = Some (144 / 7) \<and> (144 / 7 :: real) \<noteq> 0
   \<and> round_no (snd (applyOffer initial_game [8, 0, 0, 0])) = 1
   \<and> history3 (snd (the (applyOffer3 double_cosDeg CONFIG3 demo_game3 [8, 0, 0]))) = [([8, 0, 0], 2)]"
proof -
  have h: "length [8, 0, 0, 0 :: real] = length (g_Q initial_game)"
    "length [8, 0, 0 :: real] = length (cfg_Q CONFIG3)"
    by (simp_all add: initial_game_fields CONFIG3_def)
  have s: "(144 / 7 :: real) \<noteq> 0" by simp
  note t = applyOffer_processes_every_offer [OF h CONFIG3_scale s, where ?g3.0 = demo_game3
      and cosDeg = double_cosDeg]
  have r: "round_no (snd (applyOffer initial_game [8, 0, 0, 0])) = 1"
    using t by (simp add: initial_game_fields)
  have e: "computeTrueEmotion3 double_cosDeg CONFIG3 [8, 0, 0] (trueTheta3 demo_game3) (trueW3 demo_game3)
           = Some 2"
    unfolding computeTrueEmotion3_Some [OF CONFIG3_scale s]
    by (simp add: dot_def subtractArrays_def CONFIG3_def demo_game3_def double_cosDeg_def)
  from t obtain emotion g3' where a: "applyOffer3 double_cosDeg CONFIG3 demo_game3 [8, 0, 0] = Some (emotion, g3')"
    and b: "computeTrueEmotion3 double_cosDeg CONFIG3 [8, 0, 0] (trueTheta3 demo_game3) (trueW3 demo_game3)
            = Some emotion"
    and c: "history3 g3' = history3 demo_game3 @ [([8, 0, 0], emotion)]"
    by blast
  have "history3 (snd (the (applyOffer3 double_cosDeg CONFIG3 demo_game3 [8, 0, 0]))) = [([8, 0, 0], 2)]"
    using a b c e by (simp add: demo_game3_def)
  with h s r show ?thesis using CONFIG3_scale by simp
qed

section \<open>The angle of 20 degrees\<close>

lemma cubic_mono:
  fixes a b :: real
  assumes "1 / 2 \<le> a" "a \<le> b"
  shows "4 * a ^ 3 - 3 * a \<le> 4 * b ^ 3 - 3 * b"
proof -
  have b: "1 / 2 \<le> b" using assms by linarith
  define aa ab bb where "aa = a * a" and "ab = b * a" and "bb = b * b"
  have "1 / 4 \<le> aa" unfolding aa_def
    using mult_mono [of "1 / 2" a "1 / 2" a] assms(1) by simp
  moreover have "1 / 4 \<le> bb" unfolding bb_def
    using mult_mono [of "1 / 2" b "1 / 2" b] b by simp
  moreover have "1 / 4 \<le> ab" unfolding ab_def
    using mult_mono [of "1 / 2" b "1 / 2" a] b assms(1) by simp
  ultimately have "0 \<le> 4 * (bb + ab + aa) - 3" by simp
  then have "0 \<le> 4 * (b * b + b * a + a * a) - 3"
    unfolding aa_def ab_def bb_def .
  moreover have "0 \<le> b - a" using assms(2) by simp
  ultimately have "0 \<le> (b - a) * (4 * (b * b + b * a + a * a) - 3)"
    by (rule mult_nonneg_nonneg [rotated])
  moreover have "(b - a) * (4 * (b * b + b * a + a * a) - 3)
                 = (4 * b ^ 3 - 3 * b) - (4 * a ^ 3 - 3 * a)"
    by (simp add: power3_eq_cube algebra_simps)
  ultimately show ?thesis by linarith
qed

lemma cos_20_cubic: "4 * cos (pi / 9) ^ 3 - 3 * cos (pi / 9) = 1 / 2"
proof -
  have "cos (3 * (pi / 9)) = 4 * cos (pi / 9) ^ 3 - 3 * cos (pi / 9)"
    by (rule cos_treble_cos)
  moreover have "3 * (pi / 9) = pi / 3" by simp
  ultimately show ?thesis using cos_60 by simp
qed

lemma cos_20_ge_half: "1 / 2 \<le> cos (pi / 9)"
proof -
  have "cos (pi / 3) \<le> cos (pi / 9)"
    by (rule cos_monotone_0_pi_le) (use pi_gt_zero in simp_all)
  then show ?thesis by (simp add: cos_60)
qed

lemma cos_20_bounds: "93969 / 100000 < cos (pi / 9)" "cos (pi / 9) < 939695 / 1000000"
proof -
  let ?c = "cos (pi / 9)"
  show "93969 / 100000 < ?c"
  proof (rule ccontr)
    assume "\<not> 93969 / 100000 < ?c"
    then have "?c \<le> 93969 / 100000" by simp
    from cubic_mono [OF cos_20_ge_half this]
    have "1 / 2 \<le> 4 * (93969 / 100000 :: real) ^ 3 - 3 * (93969 / 100000)"
      by (simp only: cos_20_cubic)
    then show False by (simp add: power3_eq_cube)
  qed
  show "?c < 939695 / 1000000"
  proof (rule ccontr)
    assume "\<not> ?c < 939695 / 1000000"
    then have le: "939695 / 1000000 \<le> ?c" by simp
    have "(1 / 2 :: real) \<le> 939695 / 1000000" by simp
    from cubic_mono [OF this le]
    have "4 * (939695 / 1000000 :: real) ^ 3 - 3 * (939695 / 1000000) \<le> 1 / 2"
      by (simp only: cos_20_cubic)
    then show False by (simp add: power3_eq_cube)
  qed
qed

lemma sin_20_bounds: "34201 / 100000 < sin (pi / 9)" "sin (pi / 9) < 34203 / 100000"
proof -
  let ?c = "cos (pi / 9)" and ?s = "sin (pi / 9)"
  have s0: "0 < ?s" by (rule sin_gt_zero) (use pi_gt_zero in simp_all)
  have c0: "0 < ?c" using cos_20_bounds(1) by linarith
  have sq: "?s * ?s = 1 - ?c * ?c"
    using sin_cos_squared_add [of "pi / 9"] by (simp add: power2_eq_square)
  have clo: "(93969 / 100000) * (93969 / 100000) < ?c * ?c"
    using mult_strict_mono [of "93969 / 100000" ?c "93969 / 100000" ?c] cos_20_bounds(1) c0
    by simp
  have chi: "?c * ?c < (939695 / 1000000) * (939695 / 1000000)"
    using mult_strict_mono [of ?c "939695 / 1000000" ?c "939695 / 1000000"] cos_20_bounds(2) c0
    by simp
  show "34201 / 100000 < ?s"
  proof (rule ccontr)
    assume "\<not> 34201 / 100000 < ?s"
    then have "?s \<le> 34201 / 100000" by simp
    then have "?s * ?s \<le> (34201 / 100000) * (34201 / 100000)"
      using mult_mono [of ?s "34201 / 100000" ?s "34201 / 100000"] s0 by simp
    with sq chi show False by simp
  qed
  show "?s < 34203 / 100000"
  proof (rule ccontr)
    assume "\<not> ?s < 34203 / 100000"
    then have "34203 / 100000 \<le> ?s" by simp
    then have "(34203 / 100000) * (34203 / 100000) \<le> ?s * ?s"
      using mult_mono [of "34203 / 100000" ?s "34203 / 100000" ?s] s0 by simp
    with sq clo show False by simp
  qed
qed

section \<open>Reading the default grid\<close>

lemma length_concat_uniform:
  assumes "\<forall>x\<in>set xs. length (f x) = m"
  shows "length (concat (map f xs)) = length xs * m"
  using assms by (induction xs) simp_all

lemma nth_concat_uniform:
  assumes "\<forall>x\<in>set xs. length (f x) = m" "i < length xs" "j < m"
  shows "concat (map f xs) ! (i * m + j) = f (xs ! i) ! j"
  using assms
proof (induction xs arbitrary: i)
  case Nil
  then show ?case by simp
next
  case (Cons x xs)
  have lx: "length (f x) = m" using Cons.prems(1) by simp
  show ?case
  proof (cases i)
    case 0
    then show ?thesis using lx Cons.prems(3) by (simp add: nth_append)
  next
    case (Suc i')
    then have "i' < length xs" using Cons.prems(2) by simp
    moreover have "\<forall>y\<in>set xs. length (f y) = m" using Cons.prems(1) by simp
    ultimately have "concat (map f xs) ! (i' * m + j) = f (xs ! i') ! j"
      using Cons.IH Cons.prems(3) by blast
    then show ?thesis using Suc lx by (simp add: nth_append)
  qed
qed

lemma product4_nth_9:
  assumes "length vals = 9" "a < 9" "b < 9" "c < 9" "d < 9"
  shows "product4 vals ! (a * 729 + (b * 81 + (c * 9 + d))) = [vals ! a, vals ! b, vals ! c, vals ! d]"
    and "length (product4 vals) = 6561"
proof -
  let ?F3 = "\<lambda>a b c. map (\<lambda>d. [a, b, c, d]) vals"
  let ?F2 = "\<lambda>a b. concat (map (?F3 a b) vals)"
  let ?F1 = "\<lambda>a. concat (map (?F2 a) vals)"
  have l3: "length (?F3 x y z) = 9" for x y z using assms(1) by simp
  have l2: "length (?F2 x y) = 81" for x y
    using length_concat_uniform [of vals "?F3 x y" 9] l3 assms(1) by simp
  have l1: "length (?F1 x) = 729" for x
    using length_concat_uniform [of vals "?F2 x" 81] l2 assms(1) by simp
  have p: "product4 vals = concat (map ?F1 vals)" by (simp add: product4_def)
  show "length (product4 vals) = 6561"
    unfolding p using length_concat_uniform [of vals ?F1 729] l1 assms(1) by simp
  have j1: "b * 81 + (c * 9 + d) < 729" using assms by linarith
  have j2: "c * 9 + d < 81" using assms by linarith
  have "product4 vals ! (a * 729 + (b * 81 + (c * 9 + d)))
        = ?F1 (vals ! a) ! (b * 81 + (c * 9 + d))"
    unfolding p by (rule nth_concat_uniform) (use l1 assms j1 in simp_all)
  also have "\<dots> = ?F2 (vals ! a) (vals ! b) ! (c * 9 + d)"
    by (rule nth_concat_uniform) (use l2 assms j2 in simp_all)
  also have "\<dots> = ?F3 (vals ! a) (vals ! b) (vals ! c) ! d"
    by (rule nth_concat_uniform) (use l3 assms in simp_all)
  also have "\<dots> = [vals ! a, vals ! b, vals ! c, vals ! d]"
    using assms by simp
  finally show "product4 vals ! (a * 729 + (b * 81 + (c * 9 + d)))
        = [vals ! a, vals ! b, vals ! c, vals ! d]" .
qed

lemma default_grid_reads:
  "the (generateThetaGrid (- 90) 90 5) ! 22 = pi / 9"
  "length (the (generateThetaGrid (- 90) 90 5)) = 37"
  "the (generateWGrid (- 4) 4 1) ! 3713 = [1, - 4, 3, 1]"
  "length (the (generateWGrid (- 4) 4 1)) = 6561"
proof -
  show "the (generateThetaGrid (- 90) 90 5) ! 22 = pi / 9"
    by (simp add: theta_default degToRad_def del: upt_Suc)
  show "length (the (generateThetaGrid (- 90) 90 5)) = 37"
    by (simp add: theta_default del: upt_Suc)
  let ?vals = "[- 4, - 3, - 2, - 1, 0, 1, 2, 3, 4 :: real]"
  have l: "length ?vals = 9" by simp
  have "product4 ?vals ! (5 * 729 + (0 * 81 + (7 * 9 + 5))) = [?vals ! 5, ?vals ! 0, ?vals ! 7, ?vals ! 5]"
    by (rule product4_nth_9(1) [OF l]) simp_all
  then show "the (generateWGrid (- 4) 4 1) ! 3713 = [1, - 4, 3, 1]"
    by (simp add: generateWGrid_default)
  show "length (the (generateWGrid (- 4) 4 1)) = 6561"
    using product4_nth_9(2) [OF l, of 0 0 0 0] by (simp add: generateWGrid_default)
qed

section \<open>The label generator against the fast predictor\<close>

lemma default_max_20:
  "max_over_candidates CONFIG_Q CONFIG_W_SELF (generateAllOffers CONFIG_Q)
     (cos (pi / 9)) (sin (pi / 9)) [1, - 4, 3, 1]
   = Finite (27 * cos (pi / 9) - 5 * sin (pi / 9))"
proof -
  let ?c = "cos (pi / 9)" and ?s = "sin (pi / 9)"
  have q: "CONFIG_Q = map real [7, 5, 5, 5]" by (simp add: CONFIG_Q_def)
  have m0: "max (?c * 1 * 7) (?s * 2 * 7) = 7 * ?c"
    using cos_20_bounds(1) sin_20_bounds(2) by (simp add: max_def)
  have m1: "max (?c * - 4 * 5) (?s * - 1 * 5) = - 5 * ?s"
    using cos_20_bounds(1) sin_20_bounds(2) by (simp add: max_def)
  have m2: "max (?c * 3 * 5) (?s * 0 * 5) = 15 * ?c"
    using cos_20_bounds(1) by (simp add: max_def)
  have m3: "max (?c * 1 * 5) (?s * 1 * 5) = 5 * ?c"
    using cos_20_bounds(1) sin_20_bounds(2) by (simp add: max_def)
  have "max_over_candidates CONFIG_Q CONFIG_W_SELF (generateAllOffers CONFIG_Q) ?c ?s [1, - 4, 3, 1]
        = Finite (\<Sum>i<4. max (?c * [1, - 4, 3, 1] ! i * CONFIG_Q ! i)
                             (?s * CONFIG_W_SELF ! i * CONFIG_Q ! i))"
    by (rule max_over_candidates_vertex_nat [OF q]) (simp_all add: CONFIG_W_SELF_def)
  also have "(\<Sum>i<4. max (?c * [1, - 4, 3, 1] ! i * CONFIG_Q ! i)
                             (?s * CONFIG_W_SELF ! i * CONFIG_Q ! i))
             = max (?c * 1 * 7) (?s * 2 * 7) + max (?c * - 4 * 5) (?s * - 1 * 5)
               + max (?c * 3 * 5) (?s * 0 * 5) + max (?c * 1 * 5) (?s * 1 * 5)"
    unfolding sum_lessThan_4 by (simp add: CONFIG_Q_def CONFIG_W_SELF_def)
  also have "\<dots> = 27 * ?c - 5 * ?s"
    unfolding m0 m1 m2 m3 by simp
  finally show ?thesis .
qed

lemma default_utility_20:
  "cos (pi / 9) * dot [1, - 4, 3, 1] (subtractArrays CONFIG_Q [7, 5, 1, 4])
     + sin (pi / 9) * dot CONFIG_W_SELF [7, 5, 1, 4]
   = 13 * cos (pi / 9) + 13 * sin (pi / 9)"
  by (simp add: dot_def subtractArrays_def CONFIG_Q_def CONFIG_W_SELF_def)

lemma delta_20:
  "0 < 13 * cos (pi / 9) + 13 * sin (pi / 9) - (27 * cos (pi / 9) - 5 * sin (pi / 9) - 7)"
  "13 * cos (pi / 9) + 13 * sin (pi / 9) - (27 * cos (pi / 9) - 5 * sin (pi / 9) - 7) \<le> 1 / 1000"
  using cos_20_bounds sin_20_bounds by simp_all

lemma default_engine_fields:
  "Q default_engine = CONFIG_Q" "wSelf default_engine = CONFIG_W_SELF"
  "candX default_engine = generateAllOffers CONFIG_Q"
  "thetaValues (paramSpace default_engine) = the (generateThetaGrid (- 90) 90 5)"
  "wGrid (paramSpace default_engine) = the (generateWGrid (- 4) 4 1)"
  "Nt (paramSpace default_engine) = 37" "Nw (paramSpace default_engine) = 6561"
  by (simp_all add: default_engine_def new_BayesianInferenceEngine_def priv_precomputeUMAX_def
        new_ParameterSpace_def Let_def default_grid_reads)

lemma default_UMAX_20:
  "UMAX default_engine ! 22 ! 3713 = Finite (27 * cos (pi / 9) - 5 * sin (pi / 9))"
proof -
  let ?e0 = "\<lparr> paramSpace = new_ParameterSpace (the (generateThetaGrid (- 90) 90 5))
                   (the (generateWGrid (- 4) 4 1)),
               Q = CONFIG_Q, wSelf = CONFIG_W_SELF, candX = generateAllOffers CONFIG_Q,
               UMAX = [] \<rparr>"
  have "UMAX (priv_precomputeUMAX ?e0) ! 22 ! 3713
        = max_over_candidates (Q ?e0) (wSelf ?e0) (candX ?e0)
            (cos (thetaValues (paramSpace ?e0) ! 22)) (sin (thetaValues (paramSpace ?e0) ! 22))
            (wGrid (paramSpace ?e0) ! 3713)"
    by (rule UMAX_nth) (simp_all add: new_ParameterSpace_def Let_def default_grid_reads)
  then show ?thesis
    by (simp add: default_engine_def new_BayesianInferenceEngine_def new_ParameterSpace_def
          Let_def default_grid_reads default_max_20)
qed

text \<open>
  Claim C10 fails on the default configuration. At the grid hypothesis of 20 degrees
  (index 22) with weights \<open>[1, -4, 3, 1]\<close> (index 3713) and the offer \<open>[7, 5, 1, 4]\<close>, the
  utility lies above \<open>UMAX - 7\<close> by \<open>7 - 14 cos 20 + 18 sin 20\<close>, about \<open>0.00067\<close>: the
  generator \<open>utilityToEmotion\<close>, with neutral tolerance \<open>0\<close>, answers joy 1, and the
  predictor \<open>_predictEmotionFast\<close>, with tolerance \<open>0.001\<close>, answers neutral.
\<close>

theorem generator_and_predictor_disagree:
  "thetaValues (paramSpace default_engine) ! 22 = degToRad 20
   \<and> wGrid (paramSpace default_engine) ! 3713 = [1, - 4, 3, 1]
   \<and> utilityToEmotion default_emotionModel [7, 5, 1, 4] [1, - 4, 3, 1] (degToRad 20) = 1
   \<and> sampleEmotion default_emotionModel [7, 5, 1, 4] (degToRad 20) [1, - 4, 3, 1] = 1
   \<and> priv_predictEmotionFast default_engine 22 3713 [7, 5, 1, 4] = 0"
proof -
  let ?c = "cos (pi / 9)" and ?s = "sin (pi / 9)"
  let ?u = "13 * ?c + 13 * ?s" and ?m = "27 * ?c - 5 * ?s"
  have d: "degToRad 20 = pi / 9" by (simp add: degToRad_def)
  have t: "thetaValues (paramSpace default_engine) ! 22 = degToRad 20"
    by (simp add: default_engine_fields default_grid_reads d)
  have w: "wGrid (paramSpace default_engine) ! 3713 = [1, - 4, 3, 1]"
    by (simp add: default_engine_fields default_grid_reads)
  have mx: "foldl (\<lambda>maxU x. max_step maxU (utility default_emotionModel x [1, - 4, 3, 1] (pi / 9)))
              NegInfinity (em_candX default_emotionModel)
            = Finite ?m"
    using default_max_20
    by (simp add: max_over_candidates_def utility_def default_emotionModel_def Let_def)
  have uo: "utility default_emotionModel [7, 5, 1, 4] [1, - 4, 3, 1] (pi / 9) = ?u"
    using default_utility_20 by (simp add: utility_def default_emotionModel_def Let_def)
  have g: "utilityToEmotion default_emotionModel [7, 5, 1, 4] [1, - 4, 3, 1] (pi / 9) = 1"
    unfolding utilityToEmotion_def Let_def mx uo
    using delta_20 by (simp add: EMOTION_RANGE_MAX_def NEUTRAL_EPSILON_def)
  have pu: "cos (thetaValues (paramSpace default_engine) ! 22)
              * dot (wGrid (paramSpace default_engine) ! 3713)
                  (subtractArrays (Q default_engine) [7, 5, 1, 4])
            + sin (thetaValues (paramSpace default_engine) ! 22)
              * dot (wSelf default_engine) [7, 5, 1, 4] = ?u"
    unfolding t w d default_engine_fields(1,2) by (rule default_utility_20)
  have p: "priv_predictEmotionFast default_engine 22 3713 [7, 5, 1, 4] = 0"
    unfolding priv_predictEmotionFast_def Let_def pu default_UMAX_20
    using delta_20 by (simp add: EMOTION_RANGE_MAX_def)
  from t w g p show ?thesis by (simp add: d sampleEmotion_def)
qed

section \<open>Where the generator and the predictor agree\<close>

text \<open>
  Both labels are functions of \<open>delta = utility - (maxU - 7)\<close>. The ladder of the generator
  and the ceiling of the predictor agree when \<open>delta\<close> is \<open>0\<close> or further than \<open>0.001\<close> from
  \<open>0\<close>; inside the band the predictor answers neutral and the generator anger or joy 1.
\<close>

lemma ladder_is_ceiling:
  fixes d :: real
  assumes "0 < d"
  shows "(if d \<le> 1 then 1 else if d \<le> 2 then 2 else if d \<le> 3 then 3 else if d \<le> 4 then 4
          else if d \<le> 5 then 5 else if d \<le> 6 then 6 else 7) = min 7 \<lceil>d\<rceil>"
proof -
  have c: "\<lceil>d\<rceil> = k" if "real_of_int k - 1 < d" "d \<le> real_of_int k" for k
    using that by (simp add: ceiling_unique)
  consider "d \<le> 1" | "1 < d" "d \<le> 2" | "2 < d" "d \<le> 3" | "3 < d" "d \<le> 4"
    | "4 < d" "d \<le> 5" | "5 < d" "d \<le> 6" | "6 < d" by linarith
  then show ?thesis
  proof cases
    case 1
    then have "\<lceil>d\<rceil> = 1" using c [of 1] assms by simp
    with 1 show ?thesis by simp
  next
    case 2
    then have "\<lceil>d\<rceil> = 2" using c [of 2] by simp
    with 2 show ?thesis by simp
  next
    case 3
    then have "\<lceil>d\<rceil> = 3" using c [of 3] by simp
    with 3 show ?thesis by simp
  next
    case 4
    then have "\<lceil>d\<rceil> = 4" using c [of 4] by simp
    with 4 show ?thesis by simp
  next
    case 5
    then have "\<lceil>d\<rceil> = 5" using c [of 5] by simp
    with 5 show ?thesis by simp
  next
    case 6
    then have "\<lceil>d\<rceil> = 6" using c [of 6] by simp
    with 6 show ?thesis by simp
  next
    case 7
    then have "6 < \<lceil>d\<rceil>" by (simp add: less_ceiling_iff)
    then have "min 7 \<lceil>d\<rceil> = 7" by simp
    with 7 show ?thesis by simp
  qed
qed

lemma generator_predictor_by_delta:
  assumes "e = new_BayesianInferenceEngine (new_ParameterSpace thetas wg) Qv ws cands"
    and "em = \<lparr> em_q = Qv, em_wSelf = ws, em_candX = cands \<rparr>"
    and "ti < length thetas" and "wi < length wg" and "cands \<noteq> []"
    and "UMAX e ! ti ! wi = Finite m"
    and "d = utility em x (wg ! wi) (thetas ! ti) - (m - 7)"
  shows "d = 0 \<or> 1 / 1000 < \<bar>d\<bar> \<Longrightarrow>
           utilityToEmotion em x (wg ! wi) (thetas ! ti) = priv_predictEmotionFast e ti wi x"
    and "0 < \<bar>d\<bar> \<Longrightarrow> \<bar>d\<bar> \<le> 1 / 1000 \<Longrightarrow>
           priv_predictEmotionFast e ti wi x = 0
           \<and> utilityToEmotion em x (wg ! wi) (thetas ! ti) = (if d < 0 then - 1 else 1)"
proof -
  let ?u = "utility em x (wg ! wi) (thetas ! ti)"
  let ?e0 = "\<lparr> paramSpace = new_ParameterSpace thetas wg, Q = Qv, wSelf = ws,
               candX = cands, UMAX = [] \<rparr>"
  have um: "UMAX e ! ti ! wi
        = max_over_candidates Qv ws cands (cos (thetas ! ti)) (sin (thetas ! ti)) (wg ! wi)"
    using UMAX_nth [of ti ?e0 wi] assms(3,4)
    by (simp add: assms(1) new_BayesianInferenceEngine_def new_ParameterSpace_def Let_def)
  have mx: "foldl (\<lambda>maxU y. max_step maxU (utility em y (wg ! wi) (thetas ! ti)))
              NegInfinity (em_candX em) = Finite m"
    using um assms(6)
    by (simp add: max_over_candidates_def utility_def assms(2) Let_def)
  have f: "thetaValues (paramSpace e) = thetas" "wGrid (paramSpace e) = wg" "Q e = Qv"
    "wSelf e = ws"
    by (simp_all add: assms(1) new_BayesianInferenceEngine_def priv_precomputeUMAX_def
          new_ParameterSpace_def Let_def)
  have pu: "cos (thetaValues (paramSpace e) ! ti)
              * dot (wGrid (paramSpace e) ! wi) (subtractArrays (Q e) x)
            + sin (thetaValues (paramSpace e) ! ti) * dot (wSelf e) x = ?u"
    unfolding f by (simp add: utility_def assms(2) Let_def)
  have gen: "utilityToEmotion em x (wg ! wi) (thetas ! ti)
        = (if d < 0 then - 1 else if d = 0 then 0
           else if d \<le> 1 then 1 else if d \<le> 2 then 2 else if d \<le> 3 then 3
           else if d \<le> 4 then 4 else if d \<le> 5 then 5 else if d \<le> 6 then 6 else 7)"
    unfolding utilityToEmotion_def Let_def mx assms(7)
    by (simp add: EMOTION_RANGE_MAX_def NEUTRAL_EPSILON_def)
  have pre: "priv_predictEmotionFast e ti wi x
        = (if d < - (1 / 1000) then - 1 else if \<bar>d\<bar> \<le> 1 / 1000 then 0 else min 7 \<lceil>d\<rceil>)"
    unfolding priv_predictEmotionFast_def Let_def pu assms(6) assms(7)
    by (simp add: EMOTION_RANGE_MAX_def)
  show "utilityToEmotion em x (wg ! wi) (thetas ! ti) = priv_predictEmotionFast e ti wi x"
    if out: "d = 0 \<or> 1 / 1000 < \<bar>d\<bar>"
  proof -
    consider "d = 0" | "d < - (1 / 1000)" | "1 / 1000 < d" using out by linarith
    then show ?thesis
    proof cases
      case 1
      then show ?thesis unfolding gen pre by simp
    next
      case 2
      then have "d < 0" by linarith
      with 2 show ?thesis unfolding gen pre by simp
    next
      case 3
      then have p: "0 < d" by linarith
      have "\<not> d < 0" "d \<noteq> 0" "\<not> d < - (1 / 1000)" "\<not> \<bar>d\<bar> \<le> 1 / 1000"
        using 3 by linarith+
      then show ?thesis unfolding gen pre using ladder_is_ceiling [OF p] by simp
    qed
  qed
  show "priv_predictEmotionFast e ti wi x = 0
           \<and> utilityToEmotion em x (wg ! wi) (thetas ! ti) = (if d < 0 then - 1 else 1)"
    if "0 < \<bar>d\<bar>" "\<bar>d\<bar> \<le> 1 / 1000"
  proof -
    have "\<not> d < - (1 / 1000)" "d \<noteq> 0" "d \<le> 1" using that by linarith+
    then show ?thesis unfolding gen pre using that(2) by simp
  qed
qed

end
